theory Spec2Isabelle
  imports Complex_Main "HOL-Library.Log_Nat"
begin

section \<open>JavaScript numbers\<close>

text \<open>
  The coil optimisation of \<^verbatim>\<open>src/server.js\<close> (the handler of
  \<^verbatim>\<open>POST /api/optimize/coil\<close>, the helpers \<^verbatim>\<open>selectCoilProduct\<close> and
  \<^verbatim>\<open>getColorCode\<close>) computes on JavaScript numbers, the values of IEEE 754
  binary64. A finite number is held by its exact value, a rational; \<open>Fin 0\<close> is the
  positive zero, and the negative zero, the two infinities and NaN are values of
  their own. Every arithmetic operation rounds its exact result to the nearest
  binary64 value, ties to even, overflows to an infinity and underflows through the
  subnormal numbers to a zero.
\<close>

datatype jsnum = Fin rat | NegZero | PosInf | NegInf | NaN

fun sign_neg :: "jsnum \<Rightarrow> bool" where
  "sign_neg (Fin r) = (r < 0)"
| "sign_neg NegZero = True"
| "sign_neg PosInf = False"
| "sign_neg NegInf = True"
| "sign_neg NaN = False"

fun is_zero :: "jsnum \<Rightarrow> bool" where
  "is_zero (Fin r) = (r = 0)"
| "is_zero NegZero = True"
| "is_zero PosInf = False"
| "is_zero NegInf = False"
| "is_zero NaN = False"

fun is_inf :: "jsnum \<Rightarrow> bool" where
  "is_inf PosInf = True"
| "is_inf NegInf = True"
| "is_inf (Fin r) = False"
| "is_inf NegZero = False"
| "is_inf NaN = False"

text \<open>The rational a finite number stands for (both zeros stand for 0).\<close>

fun mag :: "jsnum \<Rightarrow> rat" where
  "mag (Fin r) = r"
| "mag NegZero = 0"
| "mag PosInf = 0"
| "mag NegInf = 0"
| "mag NaN = 0"

fun js_val :: "jsnum \<Rightarrow> rat option" where
  "js_val (Fin r) = Some r"
| "js_val NegZero = Some 0"
| "js_val PosInf = None"
| "js_val NegInf = None"
| "js_val NaN = None"

definition signed_zero :: "bool \<Rightarrow> jsnum" where
  "signed_zero neg = (if neg then NegZero else Fin 0)"

definition signed_inf :: "bool \<Rightarrow> jsnum" where
  "signed_inf neg = (if neg then NegInf else PosInf)"

subsection \<open>Rounding to binary64\<close>

text \<open>
  \<open>pow2 e\<close> is \<open>2^e\<close> for an integer \<open>e\<close>, and \<open>ilog2 a\<close> the integer \<open>k\<close> with
  \<open>2^k \<le> a < 2^(k+1)\<close> for a positive \<open>a\<close>, found from the bit lengths of numerator
  and denominator.
\<close>

definition pow2 :: "int \<Rightarrow> rat" where
  "pow2 e = 2 powi e"

definition ilog2 :: "rat \<Rightarrow> int" where
  "ilog2 a =
     (let d = bitlen (fst (quotient_of a)) - bitlen (snd (quotient_of a))
      in if pow2 d \<le> a then d else d - 1)"

text \<open>The nearest integer, the even one of two.\<close>

definition round_half_even :: "rat \<Rightarrow> int" where
  "round_half_even x =
     (let f = \<lfloor>x\<rfloor>; d = x - of_int f
      in if d < 1 / 2 then f else if 1 / 2 < d then f + 1 else if even f then f else f + 1)"

text \<open>
  The binary64 value nearest to a rational \<open>r\<close>. The significand has 53 bits, so the
  spacing of the values around \<open>\<bar>r\<bar>\<close> is \<open>2^e\<close> with \<open>e = ilog2 \<bar>r\<bar> - 52\<close>, and not less
  than \<open>2^(-1074)\<close>, the spacing of the subnormal numbers. The result is \<open>n * 2^e\<close>
  for the integer \<open>n\<close> nearest to \<open>\<bar>r\<bar> / 2^e\<close>; it is an infinity when it reaches
  \<open>2^1024\<close>, and a zero with the sign of \<open>r\<close> when \<open>n\<close> is 0. This is also how a numeral
  of the source, or a number of a JSON body, is read.
\<close>

definition round64 :: "rat \<Rightarrow> jsnum" where
  "round64 r =
     (if r = 0 then Fin 0
      else
        let a = \<bar>r\<bar>;
            e = max (ilog2 a - 52) (- 1074);
            n = round_half_even (a / pow2 e)
        in if 971 < e \<or> (e = 971 \<and> 2 ^ 53 \<le> n) then signed_inf (r < 0)
           else if n = 0 then signed_zero (r < 0)
           else Fin (if r < 0 then - (of_int n * pow2 e) else of_int n * pow2 e))"

subsection \<open>The operations\<close>

text \<open>\<^verbatim>\<open>x * y\<close>: the sign of the result is the exclusive or of the signs.\<close>

definition js_mul :: "jsnum \<Rightarrow> jsnum \<Rightarrow> jsnum" where
  "js_mul x y =
     (if x = NaN \<or> y = NaN then NaN
      else if (is_inf x \<and> is_zero y) \<or> (is_zero x \<and> is_inf y) then NaN
      else if is_inf x \<or> is_inf y then signed_inf (sign_neg x \<noteq> sign_neg y)
      else if is_zero x \<or> is_zero y then signed_zero (sign_neg x \<noteq> sign_neg y)
      else round64 (mag x * mag y))"

text \<open>
  \<^verbatim>\<open>x / y\<close>: a division by zero raises nothing in JavaScript. It gives an
  infinity, or NaN for \<^verbatim>\<open>0 / 0\<close>.
\<close>

definition js_div :: "jsnum \<Rightarrow> jsnum \<Rightarrow> jsnum" where
  "js_div x y =
     (if x = NaN \<or> y = NaN then NaN
      else if is_inf x \<and> is_inf y then NaN
      else if is_zero x \<and> is_zero y then NaN
      else if is_inf x then signed_inf (sign_neg x \<noteq> sign_neg y)
      else if is_inf y then signed_zero (sign_neg x \<noteq> sign_neg y)
      else if is_zero y then signed_inf (sign_neg x \<noteq> sign_neg y)
      else if is_zero x then signed_zero (sign_neg x \<noteq> sign_neg y)
      else round64 (mag x / mag y))"

text \<open>\<^verbatim>\<open>x + y\<close>: a sum of finite numbers that is exactly zero is the positive
  zero, unless both summands are the negative zero.\<close>

fun js_add :: "jsnum \<Rightarrow> jsnum \<Rightarrow> jsnum" where
  "js_add NaN y = NaN"
| "js_add x NaN = NaN"
| "js_add PosInf NegInf = NaN"
| "js_add NegInf PosInf = NaN"
| "js_add PosInf y = PosInf"
| "js_add x PosInf = PosInf"
| "js_add NegInf y = NegInf"
| "js_add x NegInf = NegInf"
| "js_add NegZero NegZero = NegZero"
| "js_add NegZero (Fin b) = Fin b"
| "js_add (Fin a) NegZero = Fin a"
| "js_add (Fin a) (Fin b) = round64 (a + b)"

fun js_uminus :: "jsnum \<Rightarrow> jsnum" where
  "js_uminus (Fin r) = (if r = 0 then NegZero else Fin (- r))"
| "js_uminus NegZero = Fin 0"
| "js_uminus PosInf = NegInf"
| "js_uminus NegInf = PosInf"
| "js_uminus NaN = NaN"

definition js_sub :: "jsnum \<Rightarrow> jsnum \<Rightarrow> jsnum" where
  "js_sub x y = js_add x (js_uminus y)"

text \<open>\<^verbatim>\<open>Math.floor\<close> and \<^verbatim>\<open>Math.ceil\<close>: exact, since the floor and the ceiling
  of a binary64 value are binary64 values. The ceiling of a number strictly between
  -1 and 0 is the negative zero.\<close>

fun js_floor :: "jsnum \<Rightarrow> jsnum" where
  "js_floor (Fin r) = Fin (of_int \<lfloor>r\<rfloor>)"
| "js_floor NegZero = NegZero"
| "js_floor PosInf = PosInf"
| "js_floor NegInf = NegInf"
| "js_floor NaN = NaN"

fun js_ceil :: "jsnum \<Rightarrow> jsnum" where
  "js_ceil (Fin r) = (if - 1 < r \<and> r < 0 then NegZero else Fin (of_int \<lceil>r\<rceil>))"
| "js_ceil NegZero = NegZero"
| "js_ceil PosInf = PosInf"
| "js_ceil NegInf = NegInf"
| "js_ceil NaN = NaN"

text \<open>\<^verbatim>\<open>x >= y\<close> and \<^verbatim>\<open>x === y\<close> on numbers: false when either side is NaN;
  the two zeros are equal.\<close>

definition js_ge :: "jsnum \<Rightarrow> jsnum \<Rightarrow> bool" where
  "js_ge x y =
     (if x = NaN \<or> y = NaN then False
      else if x = PosInf \<or> y = NegInf then True
      else if is_inf x \<or> is_inf y then False
      else mag y \<le> mag x)"

definition js_strict_eq :: "jsnum \<Rightarrow> jsnum \<Rightarrow> bool" where
  "js_strict_eq x y =
     (if x = NaN \<or> y = NaN then False
      else x = y \<or> (is_zero x \<and> is_zero y))"

section \<open>Numbers as text\<close>

text \<open>
  A string the handler builds from a number. \<open>Str s\<close> is the string \<open>s\<close>.
  For a finite number of magnitude at least \<open>10^21\<close>, or one that is not an integer,
  \<^verbatim>\<open>Number.prototype.toString\<close> prints the shortest digits that identify the
  binary64 value; that search is not modelled, and \<open>NumStr r s\<close> stands for that
  text of \<open>r\<close> followed by \<open>s\<close>.
\<close>

datatype js_string = Str string | NumStr rat string

fun js_concat :: "js_string \<Rightarrow> string \<Rightarrow> js_string" where
  "js_concat (Str s) t = Str (s @ t)"
| "js_concat (NumStr r s) t = NumStr r (s @ t)"

text \<open>The decimal digits of an integer that is not negative.\<close>

function dec_digits :: "int \<Rightarrow> string" where
  "dec_digits n =
     (if n < 10 then [''0123456789'' ! nat n]
      else dec_digits (n div 10) @ [''0123456789'' ! nat (n mod 10)])"
  by pat_completeness auto
termination
  by (relation "measure nat") auto

declare dec_digits.simps [simp del]

text \<open>\<^verbatim>\<open>Number::toString\<close>, on the integers below \<open>10^21\<close> and the values that
  are not finite.\<close>

fun number_to_string :: "jsnum \<Rightarrow> js_string" where
  "number_to_string NaN = Str ''NaN''"
| "number_to_string PosInf = Str ''Infinity''"
| "number_to_string NegInf = Str ''-Infinity''"
| "number_to_string NegZero = Str ''0''"
| "number_to_string (Fin r) =
     (if r = of_int \<lfloor>r\<rfloor> \<and> \<bar>r\<bar> < 10 ^ 21
      then Str ((if r < 0 then ''-'' else '''') @ dec_digits \<lfloor>\<bar>r\<bar>\<rfloor>)
      else NumStr r '''')"

text \<open>
  \<^verbatim>\<open>x.toFixed(f)\<close> (ECMAScript, Number.prototype.toFixed): a number that is
  not finite prints as \<^verbatim>\<open>toString\<close> does; otherwise the sign is split off, \<open>n\<close> is
  the integer nearest to \<open>\<bar>x\<bar> * 10^f\<close> for the exact value \<open>x\<close> of the number (the
  larger one of two), its digits are
  padded with zeros on the left to \<open>f + 1\<close> characters, and the point is put before
  the last \<open>f\<close> digits.
\<close>

definition fixed_digits :: "nat \<Rightarrow> int \<Rightarrow> string" where
  "fixed_digits f n =
     (let m = dec_digits n;
          m' = (if f \<noteq> 0 \<and> length m \<le> f then replicate (f + 1 - length m) CHR ''0'' @ m else m)
      in if f \<noteq> 0 then take (length m' - f) m' @ ''.'' @ drop (length m' - f) m' else m')"

fun toFixed :: "nat \<Rightarrow> jsnum \<Rightarrow> js_string" where
  "toFixed f NaN = number_to_string NaN"
| "toFixed f PosInf = number_to_string PosInf"
| "toFixed f NegInf = number_to_string NegInf"
| "toFixed f NegZero = Str (fixed_digits f 0)"
| "toFixed f (Fin r) =
     (if 10 ^ 21 \<le> \<bar>r\<bar> then NumStr r ''''
      else Str ((if r < 0 then ''-'' else '''') @ fixed_digits f \<lfloor>\<bar>r\<bar> * 10 ^ f + 1 / 2\<rfloor>))"

text \<open>
  The number a decimal string denotes (\<^verbatim>\<open>Number(s)\<close> on the strings
  \<^verbatim>\<open>toFixed\<close> prints for a finite number): an optional minus sign, digits, and
  optionally a point and more digits.
\<close>

definition digit_val :: "char \<Rightarrow> int option" where
  "digit_val c =
     (if (48::nat) \<le> of_char c \<and> of_char c \<le> (57::nat)
      then Some (int (of_char c) - 48) else None)"

fun digits_val :: "int \<Rightarrow> string \<Rightarrow> int option" where
  "digits_val acc [] = Some acc"
| "digits_val acc (c # cs) =
     (case digit_val c of None \<Rightarrow> None | Some d \<Rightarrow> digits_val (10 * acc + d) cs)"

definition unsigned_decimal :: "string \<Rightarrow> rat option" where
  "unsigned_decimal s =
     (let ip = takeWhile (\<lambda>c. c \<noteq> CHR ''.'') s;
          rest = dropWhile (\<lambda>c. c \<noteq> CHR ''.'') s
      in if ip = [] then None
         else case digits_val 0 ip of None \<Rightarrow> None
         | Some i \<Rightarrow>
             (if rest = [] then Some (of_int i)
              else if tl rest = [] then None
              else case digits_val 0 (tl rest) of None \<Rightarrow> None
                | Some d \<Rightarrow> Some (of_int i + of_int d / 10 ^ length (tl rest))))"

fun decimal_value :: "js_string \<Rightarrow> rat option" where
  "decimal_value (Str s) =
     (case s of [] \<Rightarrow> None
      | c # cs \<Rightarrow> if c = CHR ''-'' then map_option uminus (unsigned_decimal cs)
                  else unsigned_decimal s)"
| "decimal_value (NumStr r s) = (if s = [] then Some r else None)"

section \<open>Configuration\<close>

text \<open>
  \<^verbatim>\<open>BUSINESS_CONFIG\<close>: \<^verbatim>\<open>scrapFactor: 0.05\<close>, \<^verbatim>\<open>standardRollLength: 100\<close>,
  \<^verbatim>\<open>pricing: { marginPercent: 0.30, laborPerFoot: 0.50 }\<close>. The material cost per
  foot is the literal \<^verbatim>\<open>3.85\<close> of the handler. Each numeral stands for the binary64
  value nearest to it. The object is a constant of the module that no code assigns
  to.
\<close>

definition scrapFactor :: jsnum where
  "scrapFactor = round64 (5 / 100)"

definition standardRollLength :: jsnum where
  "standardRollLength = round64 100"

definition pricing_marginPercent :: jsnum where
  "pricing_marginPercent = round64 (30 / 100)"

definition pricing_laborPerFoot :: jsnum where
  "pricing_laborPerFoot = round64 (50 / 100)"

definition materialCostPerFoot :: jsnum where
  "materialCostPerFoot = round64 (385 / 100)"

text \<open>\<^verbatim>\<open>PRODUCT_CATEGORIES.colors\<close>, in the order of the object literal.\<close>

definition colors :: "(string \<times> string) list" where
  "colors =
     [(''AG'', ''Ash Gray''), (''ARW'', ''Arctic White''), (''AW'', ''Alamo White''),
      (''B'', ''Brown''), (''BER'', ''Berry''), (''BK'', ''Black''), (''BR'', ''Brick Red''),
      (''BS'', ''Burnished Slate''), (''BUR'', ''Burgundy''), (''BW'', ''Bone White''),
      (''OB'', ''Ocean Blue''), (''CH'', ''Charcoal''), (''EG'', ''Evergreen''),
      (''GB'', ''Gallery Blue''), (''GAL'', ''Galvalume'')]"

section \<open>Coil product selection\<close>

text \<open>
  \<^verbatim>\<open>String.prototype.toLowerCase\<close> on a string held as UTF-8 bytes. The letters
  A to Z map to a to z. The Kelvin sign (U+212A, the bytes E2 84 AA) maps to k; it is
  the one character outside ASCII whose lower case is an ASCII string. Every other
  character is left as it is: its lower case is not ASCII either, so the comparison
  with a lower-cased name of the colour table, which is ASCII, is decided the same way.
\<close>

definition lower_char :: "char \<Rightarrow> char" where
  "lower_char c =
     (if (65::nat) \<le> of_char c \<and> of_char c \<le> (90::nat) then char_of (of_char c + (32::nat)) else c)"

function toLowerCase :: "string \<Rightarrow> string" where
  "toLowerCase [] = []"
| "toLowerCase (c # cs) =
     (if c = CHR 0xE2 \<and> take 2 cs = [CHR 0x84, CHR 0xAA]
      then CHR ''k'' # toLowerCase (drop 2 cs)
      else lower_char c # toLowerCase cs)"
  by pat_completeness auto
termination
  by (relation "measure length") auto

text \<open>
  \<^verbatim>\<open>getColorCode\<close>: the loop over \<^verbatim>\<open>Object.entries(PRODUCT_CATEGORIES.colors)\<close>
  returns the code of the first entry whose name matches.
\<close>

fun getColorCode_entries :: "(string \<times> string) list \<Rightarrow> string \<Rightarrow> string" where
  "getColorCode_entries [] colorName = ''CUSTOM''"
| "getColorCode_entries ((code, name) # entries) colorName =
     (if toLowerCase name = toLowerCase colorName then code
      else getColorCode_entries entries colorName)"

definition getColorCode :: "string \<Rightarrow> string" where
  "getColorCode colorName = getColorCode_entries colors colorName"

definition selectCoilProduct :: "string \<Rightarrow> jsnum \<Rightarrow> string" where
  "selectCoilProduct color width =
     (let colorCode = getColorCode color;
          widthPrefix = (if js_strict_eq width (Fin 20) then ''CO20'' else ''CO43875'');
          gauge = ''29''
      in widthPrefix @ gauge @ colorCode)"

section \<open>Order lines, cutting patterns and colour groups\<close>

text \<open>
  An item of the request body. \<^verbatim>\<open>color\<close> may be absent; the numbers are whatever
  JSON carries (\<^verbatim>\<open>1e999\<close> parses to Infinity, \<^verbatim>\<open>-0\<close> to the negative zero).
  Items with a field that is absent, or that is not a number or a string, are outside
  the model. The field \<^verbatim>\<open>length\<close> is \<open>length_item\<close> here.
\<close>

record item =
  productId :: string
  color :: "string option"
  quantity :: jsnum
  length_item :: jsnum
  width :: jsnum

text \<open>The two objects the handler pushes on \<^verbatim>\<open>patterns\<close>:
  \<^verbatim>\<open>{type: 'Full Width', product, quantity, lengthEach, totalFeet}\<close> and
  \<^verbatim>\<open>{type: 'Nested Trim', product, quantity, width, piecesPerRow, rowsNeeded,
  lengthEach, totalFeet, efficiency}\<close>.\<close>

datatype pattern =
  Full_Width string jsnum jsnum jsnum
| Nested_Trim string jsnum jsnum jsnum jsnum jsnum jsnum js_string

fun totalFeet :: "pattern \<Rightarrow> jsnum" where
  "totalFeet (Full_Width product qty lengthEach feet) = feet"
| "totalFeet (Nested_Trim product qty wd piecesPerRow rowsNeeded lengthEach feet eff) = feet"

record color_group =
  items_g :: "item list"
  patterns :: "pattern list"
  baseLinearFeet :: jsnum
  scrapFeet :: jsnum
  totalLinearFeet :: jsnum
  coilsNeeded :: jsnum
  efficiency :: js_string
  recommendedCoil :: string

record pricing =
  materialCost :: js_string
  laborCost :: js_string
  totalCost :: js_string
  sellPrice :: js_string
  margin :: js_string
  marginPercent :: js_string

record summary =
  totalLinearFeet_s :: js_string
  scrapFeet_s :: js_string
  totalWithScrap :: js_string
  scrapPercent :: js_string
  totalCoilsNeeded :: jsnum
  coilWidth_s :: jsnum
  pricing :: pricing

text \<open>The body of the answer: \<^verbatim>\<open>optimization\<close> is an object keyed by colour, held
  as the list of its entries in the order of its keys.\<close>

record response =
  optimization :: "(string \<times> color_group) list"
  summary :: summary

text \<open>
  The request body. What \<^verbatim>\<open>items\<close> can be, as far as the handler tells the cases
  apart: a falsy value (absent, \<^verbatim>\<open>null\<close>, \<^verbatim>\<open>false\<close>, \<^verbatim>\<open>0\<close>, the empty string);
  a truthy value that is not an array (a string, a number, \<^verbatim>\<open>true\<close>, an object),
  with the flag telling whether its \<^verbatim>\<open>length\<close> is the number 0; or an array, whose
  elements are \<^verbatim>\<open>null\<close> or items. \<^verbatim>\<open>coilWidth\<close> may be absent; when present it
  is a number. The body itself is an object.
\<close>

datatype element = Null_element | Item item

datatype items_value = Items_falsy | Items_not_array bool | Items_array "element list"

record request =
  items :: items_value
  coilWidth_req :: "jsnum option"

text \<open>The two error answers of the handler: status 400 with
  \<^verbatim>\<open>'No items provided'\<close>, and status 500 with \<^verbatim>\<open>'Optimization failed'\<close> from the
  \<^verbatim>\<open>catch\<close> block.\<close>

datatype error = No_items_provided | Optimization_failed

section \<open>Grouping the items by colour\<close>

text \<open>\<^verbatim>\<open>item.color || 'UNSPECIFIED'\<close>: an absent colour and the empty string are
  falsy.\<close>

definition color_of :: "item \<Rightarrow> string" where
  "color_of it = (case color it of None \<Rightarrow> ''UNSPECIFIED''
                  | Some c \<Rightarrow> if c = [] then ''UNSPECIFIED'' else c)"

text \<open>
  \<^verbatim>\<open>colorGroups\<close> is the object literal \<^verbatim>\<open>{}\<close>, so it inherits the properties
  of \<^verbatim>\<open>Object.prototype\<close>. For a colour of one of these names,
  \<^verbatim>\<open>colorGroups[color]\<close> is the inherited value, which is truthy and has no
  \<^verbatim>\<open>push\<close>: no array is created, and \<^verbatim>\<open>colorGroups[color].push(item)\<close> throws a
  TypeError, which the \<^verbatim>\<open>catch\<close> block turns into the answer of status 500.
\<close>

definition object_prototype_keys :: "string list" where
  "object_prototype_keys =
     [''constructor'', ''__defineGetter__'', ''__defineSetter__'', ''hasOwnProperty'',
      ''__lookupGetter__'', ''__lookupSetter__'', ''isPrototypeOf'',
      ''propertyIsEnumerable'', ''toString'', ''valueOf'', ''__proto__'',
      ''toLocaleString'']"

text \<open>The own properties of \<^verbatim>\<open>colorGroups\<close>, in the order of their creation.\<close>

fun push_item :: "(string \<times> item list) list \<Rightarrow> string \<Rightarrow> item \<Rightarrow> (string \<times> item list) list" where
  "push_item [] c it = [(c, [it])]"
| "push_item ((k, its) # gs) c it =
     (if k = c then (k, its @ [it]) # gs else (k, its) # push_item gs c it)"

text \<open>The loop \<^verbatim>\<open>items.forEach\<close>. On a \<^verbatim>\<open>null\<close> element, \<^verbatim>\<open>item.color\<close> throws a
  TypeError.\<close>

fun group_items :: "(string \<times> item list) list \<Rightarrow> element list \<Rightarrow> error + (string \<times> item list) list" where
  "group_items gs [] = Inr gs"
| "group_items gs (Null_element # els) = Inl Optimization_failed"
| "group_items gs (Item it # els) =
     (if color_of it \<in> set object_prototype_keys then Inl Optimization_failed
      else group_items (push_item gs (color_of it) it) els)"

text \<open>
  \<^verbatim>\<open>Object.keys\<close> lists the keys that are array indices first (the canonical
  decimal numerals below \<open>2^32 - 1\<close>), in ascending order, then the other keys in
  the order of their creation.
\<close>

definition is_array_index :: "string \<Rightarrow> bool" where
  "is_array_index k =
     (case digits_val 0 k of None \<Rightarrow> False
      | Some n \<Rightarrow> k \<noteq> [] \<and> (k = ''0'' \<or> hd k \<noteq> CHR ''0'') \<and> n < 2 ^ 32 - 1)"

definition index_of_key :: "string \<Rightarrow> int" where
  "index_of_key k = (case digits_val 0 k of None \<Rightarrow> 0 | Some n \<Rightarrow> n)"

definition object_entries :: "(string \<times> 'a) list \<Rightarrow> (string \<times> 'a) list" where
  "object_entries kvs =
     sort_key (\<lambda>kv. index_of_key (fst kv)) (filter (\<lambda>kv. is_array_index (fst kv)) kvs)
     @ filter (\<lambda>kv. \<not> is_array_index (fst kv)) kvs"

section \<open>The cutting pattern of a line\<close>

text \<open>
  The body of \<^verbatim>\<open>colorItems.forEach\<close>: the state is \<^verbatim>\<open>linearFeet\<close> and
  \<^verbatim>\<open>patterns\<close>. There is no check between the computation of
  \<^verbatim>\<open>piecesPerRow\<close> and the division by it.
\<close>

definition pattern_step :: "jsnum \<Rightarrow> jsnum \<times> pattern list \<Rightarrow> item \<Rightarrow> jsnum \<times> pattern list" where
  "pattern_step coilWidth st it =
     (let linearFeet = fst st; pats = snd st in
      if js_ge (width it) coilWidth then
        (js_add linearFeet (js_mul (quantity it) (length_item it)),
         pats @ [Full_Width (productId it) (quantity it) (length_item it)
                   (js_mul (quantity it) (length_item it))])
      else
        let piecesPerRow = js_floor (js_div coilWidth (width it));
            rowsNeeded = js_ceil (js_div (quantity it) piecesPerRow);
            feetNeeded = js_mul rowsNeeded (length_item it)
        in (js_add linearFeet feetNeeded,
            pats @ [Nested_Trim (productId it) (quantity it) (width it) piecesPerRow rowsNeeded
                      (length_item it) feetNeeded
                      (js_concat
                         (toFixed 1 (js_mul (js_div (js_mul (width it) piecesPerRow) coilWidth) (Fin 100)))
                         ''%'')]))"

section \<open>One colour group\<close>

definition optimize_group :: "jsnum \<Rightarrow> string \<Rightarrow> item list \<Rightarrow> color_group" where
  "optimize_group coilWidth color' colorItems =
     (let st = foldl (pattern_step coilWidth) (Fin 0, []) colorItems;
          linearFeet = fst st;
          pats = snd st;
          scrapAmount = js_mul linearFeet scrapFactor;
          totalNeeded = js_add linearFeet scrapAmount;
          coilProduct = selectCoilProduct color' coilWidth
      in \<lparr> items_g = colorItems,
           patterns = pats,
           baseLinearFeet = linearFeet,
           scrapFeet = scrapAmount,
           totalLinearFeet = totalNeeded,
           coilsNeeded = js_ceil (js_div totalNeeded standardRollLength),
           efficiency = js_concat (toFixed 2 (js_mul (js_div linearFeet totalNeeded) (Fin 100))) ''%'',
           recommendedCoil = coilProduct \<rparr>)"

text \<open>
  The body of \<^verbatim>\<open>Object.keys(colorGroups).forEach\<close>: the state is
  \<^verbatim>\<open>optimization\<close>, \<^verbatim>\<open>totalLinearFeet\<close> and \<^verbatim>\<open>totalWithScrap\<close>.
\<close>

definition color_step ::
  "jsnum \<Rightarrow> (string \<times> color_group) list \<times> jsnum \<times> jsnum \<Rightarrow> string \<times> item list
     \<Rightarrow> (string \<times> color_group) list \<times> jsnum \<times> jsnum" where
  "color_step coilWidth st kv =
     (let g = optimize_group coilWidth (fst kv) (snd kv) in
      (fst st @ [(fst kv, g)],
       js_add (fst (snd st)) (baseLinearFeet g),
       js_add (snd (snd st)) (totalLinearFeet g)))"

section \<open>The handler of POST /api/optimize/coil\<close>

definition make_summary :: "jsnum \<Rightarrow> jsnum \<Rightarrow> jsnum \<Rightarrow> summary" where
  "make_summary coilWidth totalLinearFeet' totalWithScrap' =
     (let materialCost' = js_mul totalWithScrap' materialCostPerFoot;
          laborCost' = js_mul totalWithScrap' pricing_laborPerFoot;
          totalCost' = js_add materialCost' laborCost';
          sellPrice' = js_mul totalCost' (js_add (Fin 1) pricing_marginPercent)
      in \<lparr> totalLinearFeet_s = toFixed 2 totalLinearFeet',
           scrapFeet_s = toFixed 2 (js_sub totalWithScrap' totalLinearFeet'),
           totalWithScrap = toFixed 2 totalWithScrap',
           scrapPercent = js_concat (number_to_string (js_mul scrapFactor (Fin 100))) ''%'',
           totalCoilsNeeded = js_ceil (js_div totalWithScrap' standardRollLength),
           coilWidth_s = coilWidth,
           pricing =
             \<lparr> materialCost = toFixed 2 materialCost',
               laborCost = toFixed 2 laborCost',
               totalCost = toFixed 2 totalCost',
               sellPrice = toFixed 2 sellPrice',
               margin = toFixed 2 (js_sub sellPrice' totalCost'),
               marginPercent =
                 js_concat (toFixed 0 (js_mul pricing_marginPercent (Fin 100))) ''%'' \<rparr> \<rparr>)"

text \<open>\<^verbatim>\<open>const { items, coilWidth = 43.875 } = req.body\<close>: the default applies
  when the body has no \<^verbatim>\<open>coilWidth\<close>.\<close>

definition coilWidth_of :: "request \<Rightarrow> jsnum" where
  "coilWidth_of req = (case coilWidth_req req of None \<Rightarrow> round64 (43875 / 1000) | Some w \<Rightarrow> w)"

text \<open>
  The check \<^verbatim>\<open>!items || items.length === 0\<close>, the two loops and the answer.
  \<open>Inl\<close> is an error answer, \<open>Inr\<close> the body of the answer of status 200
  (before \<^verbatim>\<open>res.json\<close> serialises it). A truthy value that is not an array and
  whose \<^verbatim>\<open>length\<close> is not 0 passes the check; it has no \<^verbatim>\<open>forEach\<close>, the call
  throws a TypeError, and the \<^verbatim>\<open>catch\<close> block answers.
\<close>

definition optimize :: "request \<Rightarrow> error + response" where
  "optimize req =
     (case items req of
        Items_falsy \<Rightarrow> Inl No_items_provided
      | Items_not_array length_is_0 \<Rightarrow>
          if length_is_0 then Inl No_items_provided else Inl Optimization_failed
      | Items_array els \<Rightarrow>
          if els = [] then Inl No_items_provided
          else
            case group_items [] els of
              Inl e \<Rightarrow> Inl e
            | Inr colorGroups \<Rightarrow>
                let st = foldl (color_step (coilWidth_of req)) ([], Fin 0, Fin 0)
                           (object_entries colorGroups)
                in Inr \<lparr> optimization = fst st,
                         summary = make_summary (coilWidth_of req) (fst (snd st)) (snd (snd st)) \<rparr>)"

section \<open>Sample requests\<close>

text \<open>The first two lines of \<^verbatim>\<open>sampleItems\<close> (the test endpoint's data), each as a
  request of its own with the wide coil, and two colours with one Full-Width line of
  100 feet each.\<close>

definition sample_A4AG :: item where
  "sample_A4AG =
     \<lparr> productId = ''A4AG'', color = Some ''Ash Gray'', quantity = Fin 45,
       length_item = Fin 16, width = Fin (43875 / 1000) \<rparr>"

definition sample_RIDGE_AG :: item where
  "sample_RIDGE_AG =
     \<lparr> productId = ''RIDGE-AG'', color = Some ''Ash Gray'', quantity = Fin 15,
       length_item = Fin 10, width = Fin 14 \<rparr>"

definition scenario_A :: request where
  "scenario_A =
     \<lparr> items = Items_array [Item sample_A4AG], coilWidth_req = Some (Fin (43875 / 1000)) \<rparr>"

definition scenario_B :: request where
  "scenario_B =
     \<lparr> items = Items_array [Item sample_RIDGE_AG], coilWidth_req = Some (Fin (43875 / 1000)) \<rparr>"

definition sample_D_AG :: item where
  "sample_D_AG =
     \<lparr> productId = ''A4AG'', color = Some ''Ash Gray'', quantity = Fin 10,
       length_item = Fin 10, width = Fin (43875 / 1000) \<rparr>"

definition sample_D_BK :: item where
  "sample_D_BK =
     \<lparr> productId = ''A4BK'', color = Some ''Black'', quantity = Fin 10,
       length_item = Fin 10, width = Fin (43875 / 1000) \<rparr>"

definition scenario_D :: request where
  "scenario_D = \<lparr> items = Items_array [Item sample_D_AG, Item sample_D_BK], coilWidth_req = None \<rparr>"



definition narrow_item :: item where
  "narrow_item =
     \<lparr> productId = ''TRIM'', color = Some ''Black'', quantity = Fin 15,
       length_item = Fin 10, width = round64 (22 / 10) \<rparr>"

definition narrow_request :: request where
  "narrow_request = \<lparr> items = Items_array [Item narrow_item], coilWidth_req = Some (Fin 33) \<rparr>"

definition two_line_first :: item where
  "two_line_first =
     \<lparr> productId = ''A4AG'', color = Some ''Ash Gray'', quantity = Fin 30,
       length_item = Fin 8, width = Fin (43875 / 1000) \<rparr>"

definition two_line_second :: item where
  "two_line_second =
     \<lparr> productId = ''A6AG'', color = Some ''Ash Gray'', quantity = Fin 100,
       length_item = round64 (176 / 10), width = Fin (43875 / 1000) \<rparr>"

definition two_line_request :: request where
  "two_line_request =
     \<lparr> items = Items_array [Item two_line_first, Item two_line_second], coilWidth_req = None \<rparr>"

definition seven_item :: item where
  "seven_item =
     \<lparr> productId = ''A4AG'', color = Some ''Ash Gray'', quantity = Fin 7,
       length_item = Fin (105 / 10), width = Fin (43875 / 1000) \<rparr>"

definition seven_request :: request where
  "seven_request = \<lparr> items = Items_array [Item seven_item], coilWidth_req = None \<rparr>"

definition ten_request :: request where
  "ten_request = \<lparr> items = Items_array [Item sample_D_AG], coilWidth_req = None \<rparr>"

definition three_item :: item where
  "three_item =
     \<lparr> productId = ''A4AG'', color = Some ''Ash Gray'', quantity = Fin 3,
       length_item = Fin 1, width = Fin (43875 / 1000) \<rparr>"

definition three_request :: request where
  "three_request = \<lparr> items = Items_array [Item three_item], coilWidth_req = None \<rparr>"

definition rounding_item :: item where
  "rounding_item =
     \<lparr> productId = ''A4AG'', color = Some ''Ash Gray'', quantity = Fin 1,
       length_item = round64 (94 / 1000), width = Fin (43875 / 1000) \<rparr>"

definition rounding_request :: request where
  "rounding_request = \<lparr> items = Items_array [Item rounding_item], coilWidth_req = None \<rparr>"

definition strip_item :: item where
  "strip_item =
     \<lparr> productId = ''STRIP'', color = Some ''Black'', quantity = Fin 1,
       length_item = Fin 1, width = round64 (1 / 100000) \<rparr>"

definition strip_request :: request where
  "strip_request = \<lparr> items = Items_array [Item strip_item], coilWidth_req = None \<rparr>"

text \<open>Requests with a number that is not positive (a coil width of -1 with a line of
  width -2; a line of quantity -3) or not finite (a quantity of \<^verbatim>\<open>1e999\<close>, which JSON
  reads as Infinity), and requests whose list is empty, is a string, or holds
  \<^verbatim>\<open>null\<close>.\<close>

definition degenerate_item :: item where
  "degenerate_item =
     \<lparr> productId = ''TRIM'', color = None, quantity = Fin 1,
       length_item = Fin 1, width = Fin (- 2) \<rparr>"

definition degenerate_request :: request where
  "degenerate_request =
     \<lparr> items = Items_array [Item degenerate_item], coilWidth_req = Some (Fin (- 1)) \<rparr>"

definition negative_quantity_item :: item where
  "negative_quantity_item =
     \<lparr> productId = ''RIDGE-AG'', color = Some ''Ash Gray'', quantity = Fin (- 3),
       length_item = Fin 10, width = Fin 14 \<rparr>"

definition negative_quantity_request :: request where
  "negative_quantity_request =
     \<lparr> items = Items_array [Item negative_quantity_item], coilWidth_req = None \<rparr>"

definition infinite_item :: item where
  "infinite_item =
     \<lparr> productId = ''A4AG'', color = Some ''Ash Gray'', quantity = PosInf,
       length_item = Fin 1, width = Fin (43875 / 1000) \<rparr>"

definition infinite_request :: request where
  "infinite_request = \<lparr> items = Items_array [Item infinite_item], coilWidth_req = None \<rparr>"

definition empty_request :: request where
  "empty_request = \<lparr> items = Items_array [], coilWidth_req = None \<rparr>"

definition string_request :: request where
  "string_request = \<lparr> items = Items_not_array False, coilWidth_req = None \<rparr>"

definition null_request :: request where
  "null_request = \<lparr> items = Items_array [Item sample_A4AG, Null_element], coilWidth_req = None \<rparr>"

section \<open>Auxiliary notions\<close>

text \<open>The pattern the loop body pushes for a line, and the entry of
  \<^verbatim>\<open>optimization\<close> made for an entry of \<^verbatim>\<open>colorGroups\<close>.\<close>

definition line_pattern :: "jsnum \<Rightarrow> item \<Rightarrow> pattern" where
  "line_pattern W it = last (snd (pattern_step W (Fin 0, []) it))"

definition group_entry :: "jsnum \<Rightarrow> string \<times> item list \<Rightarrow> string \<times> color_group" where
  "group_entry W kv = (fst kv, optimize_group W (fst kv) (snd kv))"

text \<open>The sums the handler has in \<^verbatim>\<open>totalLinearFeet\<close> and \<^verbatim>\<open>totalWithScrap\<close> after
  its loop over the colours, read off the groups of the answer.\<close>

definition sum_baseLinearFeet :: "response \<Rightarrow> jsnum" where
  "sum_baseLinearFeet resp = foldl js_add (Fin 0) (map (baseLinearFeet \<circ> snd) (optimization resp))"

definition sum_totalLinearFeet :: "response \<Rightarrow> jsnum" where
  "sum_totalLinearFeet resp = foldl js_add (Fin 0) (map (totalLinearFeet \<circ> snd) (optimization resp))"

text \<open>Two elements are alike when both are \<^verbatim>\<open>null\<close>, or both are items of the same
  colour; two requests are alike when their lists are alike element by element, or
  are the same value that is not an array. Their numbers may differ.\<close>

fun alike :: "element \<Rightarrow> element \<Rightarrow> bool" where
  "alike Null_element Null_element = True"
| "alike (Item a) (Item b) = (color a = color b)"
| "alike Null_element (Item b) = False"
| "alike (Item a) Null_element = False"

fun alike_items :: "items_value \<Rightarrow> items_value \<Rightarrow> bool" where
  "alike_items (Items_array xs) (Items_array ys) = list_all2 alike xs ys"
| "alike_items (Items_array xs) Items_falsy = False"
| "alike_items (Items_array xs) (Items_not_array b) = False"
| "alike_items Items_falsy v = (v = Items_falsy)"
| "alike_items (Items_not_array a) v = (v = Items_not_array a)"

section \<open>Rounding\<close>

lemma pow2_pos: "0 < pow2 e"
  by (simp add: pow2_def)

lemma pow2_add: "pow2 (m + n) = pow2 m * pow2 n"
  by (simp add: pow2_def power_int_add)

lemma pow2_diff: "pow2 (m - n) = pow2 m / pow2 n"
  by (simp add: pow2_def power_int_diff)

lemma pow2_nat: "0 \<le> e \<Longrightarrow> pow2 e = 2 ^ nat e"
  by (simp add: pow2_def power_int_nonneg_exp)

lemma pow2_mono: "m \<le> n \<Longrightarrow> pow2 m \<le> pow2 n"
  by (simp add: pow2_def power_int_increasing)

lemma pow2_less_cancel: "pow2 m < pow2 n \<Longrightarrow> m < n"
  using pow2_mono [of n m] by (cases "m < n") auto

lemma of_int_pow2_bitlen:
  assumes "0 < p"
  shows "pow2 (bitlen p - 1) \<le> of_int p" and "of_int p < pow2 (bitlen p)"
proof -
  from bitlen_bounds [OF assms] have b: "2 ^ nat (bitlen p - 1) \<le> p" "p < 2 ^ nat (bitlen p)"
    by simp_all
  from assms have "1 \<le> bitlen p" by (auto simp: bitlen_alt_def)
  then have e: "pow2 (bitlen p - 1) = 2 ^ nat (bitlen p - 1)" "pow2 (bitlen p) = 2 ^ nat (bitlen p)"
    by (simp_all add: pow2_nat)
  from b(1) have "(of_int (2 ^ nat (bitlen p - 1)) :: rat) \<le> of_int p" by (simp only: of_int_le_iff)
  then show "pow2 (bitlen p - 1) \<le> of_int p" by (simp add: e)
  from b(2) have "(of_int p :: rat) < of_int (2 ^ nat (bitlen p))" by (simp only: of_int_less_iff)
  then show "of_int p < pow2 (bitlen p)" by (simp add: e)
qed

text \<open>\<open>ilog2\<close> is the binary logarithm, rounded down.\<close>

lemma ilog2_bounds:
  assumes "0 < a"
  shows "pow2 (ilog2 a) \<le> a" and "a < pow2 (ilog2 a + 1)"
proof -
  obtain p q where pq: "quotient_of a = (p, q)" by (cases "quotient_of a")
  then have q: "0 < q" and a: "a = of_int p / of_int q"
    by (simp_all add: quotient_of_denom_pos quotient_of_div)
  from assms a q have p: "0 < p" by (simp add: zero_less_divide_iff)
  define d where "d = bitlen p - bitlen q"
  have il: "ilog2 a = (if pow2 d \<le> a then d else d - 1)"
    by (simp add: ilog2_def pq d_def Let_def)
  note bp = of_int_pow2_bitlen [OF p] and bq = of_int_pow2_bitlen [OF q]
  have qpos: "(0::rat) < of_int q" using q by simp
  have lower: "pow2 (d - 1) \<le> a"
  proof -
    have "pow2 (d - 1) * of_int q \<le> pow2 (d - 1) * pow2 (bitlen q)"
      using bq(2) pow2_pos [of "d - 1"] by (simp add: mult_left_mono less_imp_le)
    also have "\<dots> = pow2 (bitlen p - 1)"
      by (simp add: d_def flip: pow2_add)
    also have "\<dots> \<le> of_int p" by (rule bp(1))
    finally show ?thesis using qpos by (simp add: a pos_le_divide_eq)
  qed
  have upper: "a < pow2 (d + 1)"
  proof -
    have "of_int p < pow2 (bitlen p)" by (rule bp(2))
    also have "\<dots> = pow2 (d + 1) * pow2 (bitlen q - 1)"
      by (simp add: d_def flip: pow2_add)
    also have "\<dots> \<le> pow2 (d + 1) * of_int q"
      using bq(1) pow2_pos [of "d + 1"] by (simp add: mult_left_mono less_imp_le)
    finally show ?thesis using qpos by (simp add: a pos_divide_less_eq)
  qed
  show "pow2 (ilog2 a) \<le> a" using lower by (simp add: il)
  show "a < pow2 (ilog2 a + 1)" using upper by (auto simp: il)
qed

lemma round_half_even_bounds:
  "\<lfloor>x\<rfloor> \<le> round_half_even x" "round_half_even x \<le> \<lfloor>x\<rfloor> + 1"
  by (simp_all add: round_half_even_def Let_def)

lemma round_half_even_error: "\<bar>of_int (round_half_even x) - x\<bar> \<le> 1 / 2"
proof -
  have "of_int \<lfloor>x\<rfloor> \<le> x" "x < of_int \<lfloor>x\<rfloor> + 1" by linarith+
  then show ?thesis
    by (auto simp: round_half_even_def Let_def abs_le_iff)
qed

lemma round64_pos:
  assumes "0 < r" and "e = max (ilog2 r - 52) (- 1074)" and "n = round_half_even (r / pow2 e)"
  shows "round64 r =
           (if 971 < e \<or> (e = 971 \<and> 2 ^ 53 \<le> n) then PosInf
            else if n = 0 then Fin 0 else Fin (of_int n * pow2 e))"
  using assms unfolding round64_def Let_def signed_inf_def signed_zero_def by auto

text \<open>Rounding a number that is at least 1 gives a number that is at least 1, or
  Infinity.\<close>

lemma round64_ge_1:
  assumes "1 \<le> r"
  shows "round64 r = PosInf \<or> (\<exists>v. round64 r = Fin v \<and> 1 \<le> v)"
proof -
  from assms have r: "0 < r" by simp
  define k where "k = ilog2 r"
  from ilog2_bounds [OF r] have lo: "pow2 k \<le> r" and hi: "r < pow2 (k + 1)"
    by (simp_all add: k_def)
  have "pow2 0 < pow2 (k + 1)" using assms hi by (simp add: pow2_def)
  then have k0: "0 \<le> k" using pow2_less_cancel [of 0 "k + 1"] by simp
  define e where "e = max (ilog2 r - 52) (- 1074)"
  from k0 have e: "e = k - 52" by (simp add: e_def k_def)
  define n where "n = round_half_even (r / pow2 e)"
  have "pow2 52 = pow2 k / pow2 e" by (simp add: e flip: pow2_diff)
  also have "\<dots> \<le> r / pow2 e" using lo pow2_pos [of e] by (simp add: divide_right_mono)
  finally have "(2::rat) ^ 52 \<le> r / pow2 e" by (simp add: pow2_def)
  then have "(2::int) ^ 52 \<le> \<lfloor>r / pow2 e\<rfloor>" by (simp add: le_floor_iff)
  with round_half_even_bounds(1) [of "r / pow2 e"] have n52: "2 ^ 52 \<le> n"
    unfolding n_def by linarith
  then have n0: "n \<noteq> 0" by simp
  from n52 have "(of_int (2 ^ 52) :: rat) \<le> of_int n" by (simp only: of_int_le_iff)
  then have "pow2 52 \<le> of_int n" by (simp add: pow2_def)
  then have "pow2 52 * pow2 e \<le> of_int n * pow2 e"
    using pow2_pos [of e] by (simp add: mult_right_mono)
  then have "pow2 k \<le> of_int n * pow2 e" by (simp add: e flip: pow2_add)
  moreover have "pow2 0 \<le> pow2 k" using k0 by (rule pow2_mono)
  ultimately have v1: "1 \<le> of_int n * pow2 e" by (simp add: pow2_def)
  show ?thesis
    using round64_pos [OF r e_def n_def] n0 v1
    by (cases "971 < e \<or> (e = 971 \<and> 2 ^ 53 \<le> n)") simp_all
qed

text \<open>In the range of the normal numbers, rounding gives a finite number with a
  relative error of at most \<open>2^(-53)\<close>.\<close>

lemma round64_normal:
  assumes "pow2 (- 1022) \<le> r" and "r < pow2 1023"
  shows "\<exists>v. round64 r = Fin v \<and> \<bar>v - r\<bar> \<le> r * pow2 (- 53) \<and> 0 < v"
proof -
  from assms(1) pow2_pos [of "- 1022"] have r: "0 < r" by linarith
  define k where "k = ilog2 r"
  from ilog2_bounds [OF r] have lo: "pow2 k \<le> r" and hi: "r < pow2 (k + 1)"
    by (simp_all add: k_def)
  have "pow2 (- 1022) < pow2 (k + 1)" using assms(1) hi by linarith
  then have klo: "- 1022 \<le> k" using pow2_less_cancel [of "- 1022" "k + 1"] by simp
  have "pow2 k < pow2 1023" using lo assms(2) by linarith
  then have khi: "k < 1023" by (rule pow2_less_cancel)
  define e where "e = max (ilog2 r - 52) (- 1074)"
  from klo have e: "e = k - 52" by (simp add: e_def k_def)
  define n where "n = round_half_even (r / pow2 e)"
  have "pow2 52 = pow2 k / pow2 e" by (simp add: e flip: pow2_diff)
  also have "\<dots> \<le> r / pow2 e" using lo pow2_pos [of e] by (simp add: divide_right_mono)
  finally have "(2::rat) ^ 52 \<le> r / pow2 e" by (simp add: pow2_def)
  then have "(2::int) ^ 52 \<le> \<lfloor>r / pow2 e\<rfloor>" by (simp add: le_floor_iff)
  with round_half_even_bounds(1) [of "r / pow2 e"] have n52: "2 ^ 52 \<le> n"
    unfolding n_def by linarith
  then have n0: "0 < n" by simp
  have no: "\<not> (971 < e \<or> (e = 971 \<and> 2 ^ 53 \<le> n))" using khi e by simp
  have val: "round64 r = Fin (of_int n * pow2 e)"
    using round64_pos [OF r e_def n_def] n0 no by simp
  have "of_int n * pow2 e - r = (of_int n - r / pow2 e) * pow2 e"
    using pow2_pos [of e] by (simp add: field_simps)
  then have "\<bar>of_int n * pow2 e - r\<bar> = \<bar>of_int n - r / pow2 e\<bar> * pow2 e"
    using pow2_pos [of e] by (simp add: abs_mult abs_of_pos)
  also have "\<dots> \<le> 1 / 2 * pow2 e"
    using round_half_even_error [of "r / pow2 e"] pow2_pos [of e]
    unfolding n_def by (simp add: mult_right_mono)
  also have "\<dots> = pow2 k * pow2 (- 53)"
  proof -
    have "pow2 e = pow2 k * pow2 (- 52)" by (simp add: e flip: pow2_add)
    moreover have "pow2 (- 52) / 2 = pow2 (- 53)" by (simp add: pow2_def power_int_minus)
    ultimately show ?thesis by simp
  qed
  also have "\<dots> \<le> r * pow2 (- 53)"
    using lo pow2_pos [of "- 53"] by (simp add: mult_right_mono)
  finally have err: "\<bar>of_int n * pow2 e - r\<bar> \<le> r * pow2 (- 53)" .
  have "0 < of_int n * pow2 e" using n0 pow2_pos [of e] by simp
  with val err show ?thesis by blast
qed

section \<open>The loops in closed form\<close>

lemma pattern_step_eq:
  "pattern_step W st it =
     (js_add (fst st) (totalFeet (line_pattern W it)), snd st @ [line_pattern W it])"
  by (simp add: pattern_step_def line_pattern_def Let_def)

lemma foldl_pattern_step:
  "foldl (pattern_step W) st its =
     (foldl js_add (fst st) (map (totalFeet \<circ> line_pattern W) its),
      snd st @ map (line_pattern W) its)"
  by (induction its arbitrary: st) (simp_all add: pattern_step_eq)


lemma line_pattern_nested:
  "\<not> js_ge (width it) W \<Longrightarrow>
     line_pattern W it =
       Nested_Trim (productId it) (quantity it) (width it)
         (js_floor (js_div W (width it)))
         (js_ceil (js_div (quantity it) (js_floor (js_div W (width it)))))
         (length_item it)
         (js_mul (js_ceil (js_div (quantity it) (js_floor (js_div W (width it))))) (length_item it))
         (js_concat
            (toFixed 1 (js_mul (js_div (js_mul (width it) (js_floor (js_div W (width it)))) W) (Fin 100)))
            ''%'')"
  by (simp add: line_pattern_def pattern_step_def Let_def)

lemma patterns_optimize_group:
  "patterns (optimize_group W c its) = map (line_pattern W) its"
  by (simp add: optimize_group_def Let_def foldl_pattern_step)

lemma items_optimize_group: "items_g (optimize_group W c its) = its"
  by (simp add: optimize_group_def Let_def)

lemma base_optimize_group:
  "baseLinearFeet (optimize_group W c its) =
     foldl js_add (Fin 0) (map totalFeet (patterns (optimize_group W c its)))"
  by (simp add: optimize_group_def Let_def foldl_pattern_step)

lemma foldl_color_step:
  "foldl (color_step W) st kvs =
     (fst st @ map (group_entry W) kvs,
      foldl js_add (fst (snd st)) (map (baseLinearFeet \<circ> snd \<circ> group_entry W) kvs),
      foldl js_add (snd (snd st)) (map (totalLinearFeet \<circ> snd \<circ> group_entry W) kvs))"
  by (induction kvs arbitrary: st) (simp_all add: color_step_def group_entry_def Let_def)

lemma group_fields:
  "scrapFeet (optimize_group W c its) = js_mul (baseLinearFeet (optimize_group W c its)) scrapFactor"
  "totalLinearFeet (optimize_group W c its) =
     js_add (baseLinearFeet (optimize_group W c its)) (scrapFeet (optimize_group W c its))"
  "coilsNeeded (optimize_group W c its) =
     js_ceil (js_div (totalLinearFeet (optimize_group W c its)) standardRollLength)"
  "efficiency (optimize_group W c its) =
     js_concat (toFixed 2 (js_mul (js_div (baseLinearFeet (optimize_group W c its))
        (totalLinearFeet (optimize_group W c its))) (Fin 100))) ''%''"
  "recommendedCoil (optimize_group W c its) = selectCoilProduct c W"
  by (simp_all add: optimize_group_def Let_def)

text \<open>What an answer of status 200 consists of.\<close>

lemma optimize_Inr:
  assumes "optimize req = Inr resp"
  obtains els gs where "items req = Items_array els" "els \<noteq> []" "group_items [] els = Inr gs"
    "optimization resp = map (group_entry (coilWidth_of req)) (object_entries gs)"
    "summary resp = make_summary (coilWidth_of req)
        (sum_baseLinearFeet resp) (sum_totalLinearFeet resp)"
  using assms
  by (auto simp: optimize_def Let_def foldl_color_step sum_baseLinearFeet_def
        sum_totalLinearFeet_def split: items_value.splits if_splits sum.splits)

section \<open>Grouping keeps every line\<close>






lemma optimize_group_mem:
  assumes "optimize req = Inr resp" "(c, g) \<in> set (optimization resp)"
  obtains its where "g = optimize_group (coilWidth_of req) c its"
proof -
  from assms(1) obtain gs where
    "optimization resp = map (group_entry (coilWidth_of req)) (object_entries gs)"
    by (rule optimize_Inr)
  with assms(2) obtain kv where "(c, g) = group_entry (coilWidth_of req) kv" by auto
  then have "g = optimize_group (coilWidth_of req) c (snd kv)"
    by (simp add: group_entry_def)
  then show ?thesis by (rule that)
qed


lemma optimize_pattern_nth:
  assumes "optimize req = Inr resp" "(c, g) \<in> set (optimization resp)" "i < length (items_g g)"
  shows "patterns g ! i = line_pattern (coilWidth_of req) (items_g g ! i)"
proof -
  from assms(1,2) obtain its where "g = optimize_group (coilWidth_of req) c its"
    using optimize_group_mem by blast
  with assms(3) show ?thesis
    by (simp add: items_optimize_group patterns_optimize_group)
qed

section \<open>The sample requests, evaluated\<close>

text \<open>A power of 2 as a quotient of integers, for evaluation.\<close>

lemma pow2_code [code]:
  "pow2 e = (if 0 \<le> e then of_int (2 ^ nat e) else 1 / of_int (2 ^ nat (- e)))"
  unfolding pow2_def power_int_def by (simp add: power_one_over inverse_eq_divide)

lemma default_coilWidth: "round64 (351 / 8) = Fin (351 / 8)"
  by code_simp

text \<open>The answer to an array of items that the first loop groups without an error.\<close>

lemma optimize_groups:
  assumes "items req = Items_array els" and "els \<noteq> []"
    and "group_items [] els = Inr gs \<and> object_entries gs = kvs"
  shows "optimize req =
     Inr \<lparr> optimization = map (group_entry (coilWidth_of req)) kvs,
           summary = make_summary (coilWidth_of req)
             (foldl js_add (Fin 0) (map (baseLinearFeet \<circ> snd \<circ> group_entry (coilWidth_of req)) kvs))
             (foldl js_add (Fin 0) (map (totalLinearFeet \<circ> snd \<circ> group_entry (coilWidth_of req)) kvs)) \<rparr>"
  using assms by (simp add: optimize_def Let_def foldl_color_step)

text \<open>The colour groups of the sample requests, field by field.\<close>

lemma scenario_A_group:
  "optimize_group (Fin (351 / 8)) ''Ash Gray'' [sample_A4AG] =
     \<lparr> items_g = [sample_A4AG],
         patterns = [Full_Width ''A4AG'' (Fin 45) (Fin 16) (Fin 720)],
         baseLinearFeet = Fin 720, scrapFeet = Fin 36,
         totalLinearFeet = Fin 756,
         coilsNeeded = Fin 8, efficiency = Str ''95.24%'', recommendedCoil = ''CO4387529AG'' \<rparr>"
  by code_simp


lemma ten_group:
  "optimize_group (Fin (351 / 8)) ''Ash Gray'' [sample_D_AG] =
     \<lparr> items_g = [sample_D_AG],
         patterns = [Full_Width ''A4AG'' (Fin 10) (Fin 10) (Fin 100)],
         baseLinearFeet = Fin 100, scrapFeet = Fin 5,
         totalLinearFeet = Fin 105,
         coilsNeeded = Fin 2, efficiency = Str ''95.24%'', recommendedCoil = ''CO4387529AG'' \<rparr>"
  by code_simp

lemma black_group:
  "optimize_group (Fin (351 / 8)) ''Black'' [sample_D_BK] =
     \<lparr> items_g = [sample_D_BK],
         patterns = [Full_Width ''A4BK'' (Fin 10) (Fin 10) (Fin 100)],
         baseLinearFeet = Fin 100, scrapFeet = Fin 5,
         totalLinearFeet = Fin 105,
         coilsNeeded = Fin 2, efficiency = Str ''95.24%'', recommendedCoil = ''CO4387529BK'' \<rparr>"
  by code_simp


lemma narrow_group:
  "optimize_group (Fin 33) ''Black'' [narrow_item] =
     \<lparr> items_g = [narrow_item],
         patterns = [Nested_Trim ''TRIM'' (Fin 15) (Fin (2476979795053773 / 1125899906842624)) (Fin 14) (Fin 2)
                       (Fin 10) (Fin 20) (Str ''93.3%'')],
         baseLinearFeet = Fin 20, scrapFeet = Fin 1,
         totalLinearFeet = Fin 21,
         coilsNeeded = Fin 1, efficiency = Str ''95.24%'', recommendedCoil = ''CO4387529BK'' \<rparr>"
  by code_simp

lemma two_line_group:
  "optimize_group (Fin (351 / 8)) ''Ash Gray'' [two_line_first, two_line_second] =
     \<lparr> items_g = [two_line_first, two_line_second],
         patterns = [Full_Width ''A4AG'' (Fin 30) (Fin 8) (Fin 240),
                     Full_Width ''A6AG'' (Fin 100) (Fin (2476979795053773 / 140737488355328))
                       (Fin (7740561859543041 / 4398046511104))],
         baseLinearFeet = Fin (8796093022208001 / 4398046511104), scrapFeet = Fin (7036874417766401 / 70368744177664),
         totalLinearFeet = Fin (4617948836659201 / 2199023255552),
         coilsNeeded = Fin 22, efficiency = Str ''95.24%'', recommendedCoil = ''CO4387529AG'' \<rparr>"
  by code_simp

lemma seven_group:
  "optimize_group (Fin (351 / 8)) ''Ash Gray'' [seven_item] =
     \<lparr> items_g = [seven_item],
         patterns = [Full_Width ''A4AG'' (Fin 7) (Fin (21 / 2)) (Fin (147 / 2))],
         baseLinearFeet = Fin (147 / 2), scrapFeet = Fin (8275364315293287 / 2251799813685248),
         totalLinearFeet = Fin (5430707831911219 / 70368744177664),
         coilsNeeded = Fin 1, efficiency = Str ''95.24%'', recommendedCoil = ''CO4387529AG'' \<rparr>"
  by code_simp

lemma three_group:
  "optimize_group (Fin (351 / 8)) ''Ash Gray'' [three_item] =
     \<lparr> items_g = [three_item],
         patterns = [Full_Width ''A4AG'' (Fin 3) (Fin 1) (Fin 3)],
         baseLinearFeet = Fin 3, scrapFeet = Fin (1351079888211149 / 9007199254740992),
         totalLinearFeet = Fin (7093169413108531 / 2251799813685248),
         coilsNeeded = Fin 1, efficiency = Str ''95.24%'', recommendedCoil = ''CO4387529AG'' \<rparr>"
  by code_simp

lemma rounding_group:
  "optimize_group (Fin (351 / 8)) ''Ash Gray'' [rounding_item] =
     \<lparr> items_g = [rounding_item],
         patterns = [Full_Width ''A4AG'' (Fin 1) (Fin (3386706919782613 / 36028797018963968))
                       (Fin (3386706919782613 / 36028797018963968))],
         baseLinearFeet = Fin (3386706919782613 / 36028797018963968), scrapFeet = Fin (5418731071652181 / 1152921504606846976),
         totalLinearFeet = Fin (7112084531543487 / 72057594037927936),
         coilsNeeded = Fin 1, efficiency = Str ''95.24%'', recommendedCoil = ''CO4387529AG'' \<rparr>"
  by code_simp

lemma strip_group:
  "optimize_group (Fin (351 / 8)) ''Black'' [strip_item] =
     \<lparr> items_g = [strip_item],
         patterns = [Nested_Trim ''STRIP'' (Fin 1) (Fin (5902958103587057 / 590295810358705651712)) (Fin 4387500)
                       (Fin 1) (Fin 1) (Fin 1) (Str ''100.0%'')],
         baseLinearFeet = Fin 1, scrapFeet = Fin (3602879701896397 / 72057594037927936),
         totalLinearFeet = Fin (4728779608739021 / 4503599627370496),
         coilsNeeded = Fin 1, efficiency = Str ''95.24%'', recommendedCoil = ''CO4387529BK'' \<rparr>"
  by code_simp

lemma degenerate_group:
  "optimize_group (Fin (- 1)) ''UNSPECIFIED'' [degenerate_item] =
     \<lparr> items_g = [degenerate_item],
         patterns = [Nested_Trim ''TRIM'' (Fin 1) (Fin (- 2)) (Fin 0) PosInf (Fin 1) PosInf (Str ''0.0%'')],
         baseLinearFeet = PosInf, scrapFeet = PosInf,
         totalLinearFeet = PosInf,
         coilsNeeded = PosInf, efficiency = Str ''NaN%'', recommendedCoil = ''CO4387529CUSTOM'' \<rparr>"
  by code_simp

lemma negative_quantity_group:
  "optimize_group (Fin (351 / 8)) ''Ash Gray'' [negative_quantity_item] =
     \<lparr> items_g = [negative_quantity_item],
         patterns = [Nested_Trim ''RIDGE-AG'' (Fin (- 3)) (Fin 14) (Fin 3) (Fin (- 1)) (Fin 10) (Fin (- 10))
                       (Str ''95.7%'')],
         baseLinearFeet = Fin (- 10), scrapFeet = Fin (- (1 / 2)),
         totalLinearFeet = Fin (- (21 / 2)),
         coilsNeeded = NegZero, efficiency = Str ''95.24%'', recommendedCoil = ''CO4387529AG'' \<rparr>"
  by code_simp

lemma infinite_group:
  "optimize_group (Fin (351 / 8)) ''Ash Gray'' [infinite_item] =
     \<lparr> items_g = [infinite_item],
         patterns = [Full_Width ''A4AG'' PosInf (Fin 1) PosInf],
         baseLinearFeet = PosInf, scrapFeet = PosInf,
         totalLinearFeet = PosInf,
         coilsNeeded = PosInf, efficiency = Str ''NaN%'', recommendedCoil = ''CO4387529AG'' \<rparr>"
  by code_simp

text \<open>The answers to the sample requests, in terms of their groups.\<close>

lemma scenario_A_answer:
  "optimize scenario_A =
     Inr \<lparr> optimization = [(''Ash Gray'', optimize_group (Fin (351 / 8)) ''Ash Gray'' [sample_A4AG])],
           summary = make_summary (Fin (351 / 8))
             (js_add (Fin 0)
               (baseLinearFeet (optimize_group (Fin (351 / 8)) ''Ash Gray'' [sample_A4AG])))
             (js_add (Fin 0)
               (totalLinearFeet (optimize_group (Fin (351 / 8)) ''Ash Gray'' [sample_A4AG]))) \<rparr>"
proof -
  have "group_items [] [Item sample_A4AG] = Inr [(''Ash Gray'', [sample_A4AG])]
          \<and> object_entries [(''Ash Gray'', [sample_A4AG])] = [(''Ash Gray'', [sample_A4AG])]"
    by code_simp
  from optimize_groups [of scenario_A, OF _ _ this] show ?thesis
    by (simp add: scenario_A_def coilWidth_of_def default_coilWidth group_entry_def del: js_add.simps)
qed


lemma scenario_D_answer:
  "optimize scenario_D =
     Inr \<lparr> optimization = [(''Ash Gray'', optimize_group (Fin (351 / 8)) ''Ash Gray'' [sample_D_AG]),
                            (''Black'', optimize_group (Fin (351 / 8)) ''Black'' [sample_D_BK])],
           summary = make_summary (Fin (351 / 8))
             (js_add (js_add (Fin 0)
               (baseLinearFeet (optimize_group (Fin (351 / 8)) ''Ash Gray'' [sample_D_AG])))
               (baseLinearFeet (optimize_group (Fin (351 / 8)) ''Black'' [sample_D_BK])))
             (js_add (js_add (Fin 0)
               (totalLinearFeet (optimize_group (Fin (351 / 8)) ''Ash Gray'' [sample_D_AG])))
               (totalLinearFeet (optimize_group (Fin (351 / 8)) ''Black'' [sample_D_BK]))) \<rparr>"
proof -
  have "group_items [] [Item sample_D_AG, Item sample_D_BK] = Inr [(''Ash Gray'', [sample_D_AG]), (''Black'', [sample_D_BK])]
          \<and> object_entries [(''Ash Gray'', [sample_D_AG]), (''Black'', [sample_D_BK])] = [(''Ash Gray'', [sample_D_AG]), (''Black'', [sample_D_BK])]"
    by code_simp
  from optimize_groups [of scenario_D, OF _ _ this] show ?thesis
    by (simp add: scenario_D_def coilWidth_of_def default_coilWidth group_entry_def del: js_add.simps)
qed


lemma narrow_answer:
  "optimize narrow_request =
     Inr \<lparr> optimization = [(''Black'', optimize_group (Fin 33) ''Black'' [narrow_item])],
           summary = make_summary (Fin 33)
             (js_add (Fin 0)
               (baseLinearFeet (optimize_group (Fin 33) ''Black'' [narrow_item])))
             (js_add (Fin 0)
               (totalLinearFeet (optimize_group (Fin 33) ''Black'' [narrow_item]))) \<rparr>"
proof -
  have "group_items [] [Item narrow_item] = Inr [(''Black'', [narrow_item])]
          \<and> object_entries [(''Black'', [narrow_item])] = [(''Black'', [narrow_item])]"
    by code_simp
  from optimize_groups [of narrow_request, OF _ _ this] show ?thesis
    by (simp add: narrow_request_def coilWidth_of_def default_coilWidth group_entry_def del: js_add.simps)
qed

lemma two_line_answer:
  "optimize two_line_request =
     Inr \<lparr> optimization = [(''Ash Gray'', optimize_group (Fin (351 / 8)) ''Ash Gray'' [two_line_first, two_line_second])],
           summary = make_summary (Fin (351 / 8))
             (js_add (Fin 0)
               (baseLinearFeet (optimize_group (Fin (351 / 8)) ''Ash Gray'' [two_line_first, two_line_second])))
             (js_add (Fin 0)
               (totalLinearFeet (optimize_group (Fin (351 / 8)) ''Ash Gray'' [two_line_first, two_line_second]))) \<rparr>"
proof -
  have "group_items [] [Item two_line_first, Item two_line_second] = Inr [(''Ash Gray'', [two_line_first, two_line_second])]
          \<and> object_entries [(''Ash Gray'', [two_line_first, two_line_second])] = [(''Ash Gray'', [two_line_first, two_line_second])]"
    by code_simp
  from optimize_groups [of two_line_request, OF _ _ this] show ?thesis
    by (simp add: two_line_request_def coilWidth_of_def default_coilWidth group_entry_def del: js_add.simps)
qed

lemma seven_answer:
  "optimize seven_request =
     Inr \<lparr> optimization = [(''Ash Gray'', optimize_group (Fin (351 / 8)) ''Ash Gray'' [seven_item])],
           summary = make_summary (Fin (351 / 8))
             (js_add (Fin 0)
               (baseLinearFeet (optimize_group (Fin (351 / 8)) ''Ash Gray'' [seven_item])))
             (js_add (Fin 0)
               (totalLinearFeet (optimize_group (Fin (351 / 8)) ''Ash Gray'' [seven_item]))) \<rparr>"
proof -
  have "group_items [] [Item seven_item] = Inr [(''Ash Gray'', [seven_item])]
          \<and> object_entries [(''Ash Gray'', [seven_item])] = [(''Ash Gray'', [seven_item])]"
    by code_simp
  from optimize_groups [of seven_request, OF _ _ this] show ?thesis
    by (simp add: seven_request_def coilWidth_of_def default_coilWidth group_entry_def del: js_add.simps)
qed

lemma ten_answer:
  "optimize ten_request =
     Inr \<lparr> optimization = [(''Ash Gray'', optimize_group (Fin (351 / 8)) ''Ash Gray'' [sample_D_AG])],
           summary = make_summary (Fin (351 / 8))
             (js_add (Fin 0)
               (baseLinearFeet (optimize_group (Fin (351 / 8)) ''Ash Gray'' [sample_D_AG])))
             (js_add (Fin 0)
               (totalLinearFeet (optimize_group (Fin (351 / 8)) ''Ash Gray'' [sample_D_AG]))) \<rparr>"
proof -
  have "group_items [] [Item sample_D_AG] = Inr [(''Ash Gray'', [sample_D_AG])]
          \<and> object_entries [(''Ash Gray'', [sample_D_AG])] = [(''Ash Gray'', [sample_D_AG])]"
    by code_simp
  from optimize_groups [of ten_request, OF _ _ this] show ?thesis
    by (simp add: ten_request_def coilWidth_of_def default_coilWidth group_entry_def del: js_add.simps)
qed

lemma three_answer:
  "optimize three_request =
     Inr \<lparr> optimization = [(''Ash Gray'', optimize_group (Fin (351 / 8)) ''Ash Gray'' [three_item])],
           summary = make_summary (Fin (351 / 8))
             (js_add (Fin 0)
               (baseLinearFeet (optimize_group (Fin (351 / 8)) ''Ash Gray'' [three_item])))
             (js_add (Fin 0)
               (totalLinearFeet (optimize_group (Fin (351 / 8)) ''Ash Gray'' [three_item]))) \<rparr>"
proof -
  have "group_items [] [Item three_item] = Inr [(''Ash Gray'', [three_item])]
          \<and> object_entries [(''Ash Gray'', [three_item])] = [(''Ash Gray'', [three_item])]"
    by code_simp
  from optimize_groups [of three_request, OF _ _ this] show ?thesis
    by (simp add: three_request_def coilWidth_of_def default_coilWidth group_entry_def del: js_add.simps)
qed

lemma rounding_answer:
  "optimize rounding_request =
     Inr \<lparr> optimization = [(''Ash Gray'', optimize_group (Fin (351 / 8)) ''Ash Gray'' [rounding_item])],
           summary = make_summary (Fin (351 / 8))
             (js_add (Fin 0)
               (baseLinearFeet (optimize_group (Fin (351 / 8)) ''Ash Gray'' [rounding_item])))
             (js_add (Fin 0)
               (totalLinearFeet (optimize_group (Fin (351 / 8)) ''Ash Gray'' [rounding_item]))) \<rparr>"
proof -
  have "group_items [] [Item rounding_item] = Inr [(''Ash Gray'', [rounding_item])]
          \<and> object_entries [(''Ash Gray'', [rounding_item])] = [(''Ash Gray'', [rounding_item])]"
    by code_simp
  from optimize_groups [of rounding_request, OF _ _ this] show ?thesis
    by (simp add: rounding_request_def coilWidth_of_def default_coilWidth group_entry_def del: js_add.simps)
qed

lemma strip_answer:
  "optimize strip_request =
     Inr \<lparr> optimization = [(''Black'', optimize_group (Fin (351 / 8)) ''Black'' [strip_item])],
           summary = make_summary (Fin (351 / 8))
             (js_add (Fin 0)
               (baseLinearFeet (optimize_group (Fin (351 / 8)) ''Black'' [strip_item])))
             (js_add (Fin 0)
               (totalLinearFeet (optimize_group (Fin (351 / 8)) ''Black'' [strip_item]))) \<rparr>"
proof -
  have "group_items [] [Item strip_item] = Inr [(''Black'', [strip_item])]
          \<and> object_entries [(''Black'', [strip_item])] = [(''Black'', [strip_item])]"
    by code_simp
  from optimize_groups [of strip_request, OF _ _ this] show ?thesis
    by (simp add: strip_request_def coilWidth_of_def default_coilWidth group_entry_def del: js_add.simps)
qed

lemma degenerate_answer:
  "optimize degenerate_request =
     Inr \<lparr> optimization = [(''UNSPECIFIED'', optimize_group (Fin (- 1)) ''UNSPECIFIED'' [degenerate_item])],
           summary = make_summary (Fin (- 1))
             (js_add (Fin 0)
               (baseLinearFeet (optimize_group (Fin (- 1)) ''UNSPECIFIED'' [degenerate_item])))
             (js_add (Fin 0)
               (totalLinearFeet (optimize_group (Fin (- 1)) ''UNSPECIFIED'' [degenerate_item]))) \<rparr>"
proof -
  have "group_items [] [Item degenerate_item] = Inr [(''UNSPECIFIED'', [degenerate_item])]
          \<and> object_entries [(''UNSPECIFIED'', [degenerate_item])] = [(''UNSPECIFIED'', [degenerate_item])]"
    by code_simp
  from optimize_groups [of degenerate_request, OF _ _ this] show ?thesis
    by (simp add: degenerate_request_def coilWidth_of_def default_coilWidth group_entry_def del: js_add.simps)
qed

lemma negative_quantity_answer:
  "optimize negative_quantity_request =
     Inr \<lparr> optimization = [(''Ash Gray'', optimize_group (Fin (351 / 8)) ''Ash Gray'' [negative_quantity_item])],
           summary = make_summary (Fin (351 / 8))
             (js_add (Fin 0)
               (baseLinearFeet (optimize_group (Fin (351 / 8)) ''Ash Gray'' [negative_quantity_item])))
             (js_add (Fin 0)
               (totalLinearFeet (optimize_group (Fin (351 / 8)) ''Ash Gray'' [negative_quantity_item]))) \<rparr>"
proof -
  have "group_items [] [Item negative_quantity_item] = Inr [(''Ash Gray'', [negative_quantity_item])]
          \<and> object_entries [(''Ash Gray'', [negative_quantity_item])] = [(''Ash Gray'', [negative_quantity_item])]"
    by code_simp
  from optimize_groups [of negative_quantity_request, OF _ _ this] show ?thesis
    by (simp add: negative_quantity_request_def coilWidth_of_def default_coilWidth group_entry_def del: js_add.simps)
qed

lemma infinite_answer:
  "optimize infinite_request =
     Inr \<lparr> optimization = [(''Ash Gray'', optimize_group (Fin (351 / 8)) ''Ash Gray'' [infinite_item])],
           summary = make_summary (Fin (351 / 8))
             (js_add (Fin 0)
               (baseLinearFeet (optimize_group (Fin (351 / 8)) ''Ash Gray'' [infinite_item])))
             (js_add (Fin 0)
               (totalLinearFeet (optimize_group (Fin (351 / 8)) ''Ash Gray'' [infinite_item]))) \<rparr>"
proof -
  have "group_items [] [Item infinite_item] = Inr [(''Ash Gray'', [infinite_item])]
          \<and> object_entries [(''Ash Gray'', [infinite_item])] = [(''Ash Gray'', [infinite_item])]"
    by code_simp
  from optimize_groups [of infinite_request, OF _ _ this] show ?thesis
    by (simp add: infinite_request_def coilWidth_of_def default_coilWidth group_entry_def del: js_add.simps)
qed

text \<open>The summaries of four of them.\<close>

lemma scenario_D_sums:
  "round64 100 = Fin 100"
  "round64 200 = Fin 200"
  "round64 105 = Fin 105"
  "round64 210 = Fin 210"
  by code_simp+

lemma scenario_D_summary:
  "make_summary (Fin (351 / 8)) (Fin 200) (Fin 210) =
     \<lparr> totalLinearFeet_s = Str ''200.00'', scrapFeet_s = Str ''10.00'', totalWithScrap = Str ''210.00'',
         scrapPercent = Str ''5%'', totalCoilsNeeded = Fin 3, coilWidth_s = (Fin (351 / 8)),
         pricing = \<lparr> materialCost = Str ''808.50'', laborCost = Str ''105.00'', totalCost = Str ''913.50'',
                     sellPrice = Str ''1187.55'', margin = Str ''274.05'', marginPercent = Str ''30%'' \<rparr> \<rparr>"
  by code_simp

lemma seven_sums:
  "round64 (147 / 2) = Fin (147 / 2)"
  "round64 (5430707831911219 / 70368744177664) = Fin (5430707831911219 / 70368744177664)"
  by code_simp+

lemma seven_summary:
  "make_summary (Fin (351 / 8)) (Fin (147 / 2)) (Fin (5430707831911219 / 70368744177664)) =
     \<lparr> totalLinearFeet_s = Str ''73.50'', scrapFeet_s = Str ''3.67'', totalWithScrap = Str ''77.17'',
         scrapPercent = Str ''5%'', totalCoilsNeeded = Fin 1, coilWidth_s = (Fin (351 / 8)),
         pricing = \<lparr> materialCost = Str ''297.12'', laborCost = Str ''38.59'', totalCost = Str ''335.71'',
                     sellPrice = Str ''436.42'', margin = Str ''100.71'', marginPercent = Str ''30%'' \<rparr> \<rparr>"
  by code_simp

lemma ten_sums:
  "round64 100 = Fin 100"
  "round64 105 = Fin 105"
  by code_simp+

lemma ten_summary:
  "make_summary (Fin (351 / 8)) (Fin 100) (Fin 105) =
     \<lparr> totalLinearFeet_s = Str ''100.00'', scrapFeet_s = Str ''5.00'', totalWithScrap = Str ''105.00'',
         scrapPercent = Str ''5%'', totalCoilsNeeded = Fin 2, coilWidth_s = (Fin (351 / 8)),
         pricing = \<lparr> materialCost = Str ''404.25'', laborCost = Str ''52.50'', totalCost = Str ''456.75'',
                     sellPrice = Str ''593.77'', margin = Str ''137.02'', marginPercent = Str ''30%'' \<rparr> \<rparr>"
  by code_simp

lemma rounding_sums:
  "round64 (3386706919782613 / 36028797018963968) = Fin (3386706919782613 / 36028797018963968)"
  "round64 (7112084531543487 / 72057594037927936) = Fin (7112084531543487 / 72057594037927936)"
  by code_simp+

lemma rounding_summary:
  "make_summary (Fin (351 / 8)) (Fin (3386706919782613 / 36028797018963968)) (Fin (7112084531543487 / 72057594037927936)) =
     \<lparr> totalLinearFeet_s = Str ''0.09'', scrapFeet_s = Str ''0.00'', totalWithScrap = Str ''0.10'',
         scrapPercent = Str ''5%'', totalCoilsNeeded = Fin 1, coilWidth_s = (Fin (351 / 8)),
         pricing = \<lparr> materialCost = Str ''0.38'', laborCost = Str ''0.05'', totalCost = Str ''0.43'',
                     sellPrice = Str ''0.56'', margin = Str ''0.13'', marginPercent = Str ''30%'' \<rparr> \<rparr>"
  by code_simp

section \<open>Grouping, on examples\<close>

text \<open>An absent colour and the empty string go to \<^verbatim>\<open>UNSPECIFIED\<close>; a line keeps its
  place in its group; a colour named like an inherited property makes the first loop
  throw; and \<^verbatim>\<open>Object.keys\<close> puts the keys that are array indices first.\<close>

lemma color_of_examples:
  "color_of (sample_A4AG \<lparr> color := None \<rparr>) = ''UNSPECIFIED''"
  "color_of (sample_A4AG \<lparr> color := Some '''' \<rparr>) = ''UNSPECIFIED''"
  "color_of sample_A4AG = ''Ash Gray''"
  by (simp_all add: color_of_def sample_A4AG_def)

lemma group_items_examples:
  "group_items [] [Item sample_A4AG, Item sample_D_BK, Item sample_RIDGE_AG] =
     Inr [(''Ash Gray'', [sample_A4AG, sample_RIDGE_AG]), (''Black'', [sample_D_BK])]"
  "group_items [] [Item sample_A4AG, Item (sample_D_BK \<lparr> color := Some ''constructor'' \<rparr>)] =
     Inl Optimization_failed"
  "group_items [] [Item (sample_D_BK \<lparr> color := Some ''__proto__'' \<rparr>)] =
     Inl Optimization_failed"
  by code_simp+

lemma object_entries_example:
  "map fst (object_entries
     [(''Black'', 1::nat), (''7'', 2), (''Ash Gray'', 3), (''3'', 4), (''03'', 5), (''4294967295'', 6),
      (''4294967294'', 7), (''0'', 8)]) =
     [''0'', ''3'', ''7'', ''4294967294'', ''Black'', ''Ash Gray'', ''03'', ''4294967295'']"
  by code_simp

section \<open>Which requests get an error answer\<close>

lemma group_items_Inl: "group_items gs els = Inl e \<Longrightarrow> e = Optimization_failed"
  by (induction gs els rule: group_items.induct) (auto split: if_splits)

lemma group_items_null:
  "Null_element \<in> set els \<Longrightarrow> group_items gs els = Inl Optimization_failed"
proof (induction gs els rule: group_items.induct)
  case (3 gs it els)
  then show ?case by auto
qed simp_all

text \<open>Whether the first loop throws depends on the colours only.\<close>

lemma group_items_alike:
  "list_all2 alike xs ys \<Longrightarrow> isl (group_items gs xs) = isl (group_items hs ys)"
proof (induction xs ys arbitrary: gs hs rule: list_all2_induct)
  case Nil
  then show ?case by simp
next
  case (Cons x xs y ys)
  show ?case
  proof (cases x)
    case Null_element
    with Cons.hyps(1) have "y = Null_element" by (cases y) simp_all
    with Null_element show ?thesis by simp
  next
    case (Item a)
    with Cons.hyps(1) obtain b where y: "y = Item b" and c: "color a = color b"
      by (cases y) simp_all
    from c have "color_of a = color_of b" by (simp add: color_of_def)
    with Item y Cons.IH show ?thesis by simp
  qed
qed

lemma optimize_Inl_iff:
  "(optimize req = Inl e) =
     (case items req of
        Items_falsy \<Rightarrow> e = No_items_provided
      | Items_not_array length_is_0 \<Rightarrow>
          e = (if length_is_0 then No_items_provided else Optimization_failed)
      | Items_array els \<Rightarrow>
          if els = [] then e = No_items_provided
          else isl (group_items [] els) \<and> e = Optimization_failed)"
  by (auto simp: optimize_def Let_def split: items_value.splits sum.splits
        dest: group_items_Inl)

section \<open>The pieces per row of a line narrower than the coil\<close>

lemma narrower_not_ge: "w < cw \<Longrightarrow> \<not> js_ge (Fin w) (Fin cw)"
  by (simp add: js_ge_def)

lemma js_div_Fin: "a \<noteq> 0 \<Longrightarrow> b \<noteq> 0 \<Longrightarrow> js_div (Fin a) (Fin b) = round64 (a / b)"
  by (simp add: js_div_def)

lemma js_mul_Fin: "a \<noteq> 0 \<Longrightarrow> b \<noteq> 0 \<Longrightarrow> js_mul (Fin a) (Fin b) = round64 (a * b)"
  by (simp add: js_mul_def)

text \<open>The quotient of the coil width by a smaller positive width is above 1, so its
  binary64 value is at least 1 or Infinity, and so is its floor.\<close>

lemma narrower_pieces:
  assumes "0 < w" and "w < cw"
  shows "js_floor (js_div (Fin cw) (Fin w)) = PosInf
         \<or> (\<exists>n. js_floor (js_div (Fin cw) (Fin w)) = Fin (of_int n) \<and> 1 \<le> n)"
proof -
  from assms have d: "js_div (Fin cw) (Fin w) = round64 (cw / w)"
    by (simp add: js_div_Fin)
  from assms have "1 \<le> cw / w" by simp
  from round64_ge_1 [OF this] show ?thesis
  proof
    assume "round64 (cw / w) = PosInf"
    then show ?thesis by (simp add: d)
  next
    assume "\<exists>v. round64 (cw / w) = Fin v \<and> 1 \<le> v"
    then obtain v where v: "round64 (cw / w) = Fin v" "1 \<le> v" by blast
    from v(2) have "1 \<le> \<lfloor>v\<rfloor>" by (simp add: le_floor_iff)
    with v(1) show ?thesis by (auto simp: d)
  qed
qed

text \<open>When that quotient does not overflow, its floor times the width exceeds the
  coil width by the rounding error of the quotient at most.\<close>

lemma narrower_packing:
  assumes "0 < w" and "w < cw" and "cw / w < pow2 1023"
  shows "\<exists>n. js_floor (js_div (Fin cw) (Fin w)) = Fin (of_int n) \<and> 1 \<le> n
           \<and> of_int n * w \<le> cw * (1 + pow2 (- 53))"
proof -
  from assms have d: "js_div (Fin cw) (Fin w) = round64 (cw / w)"
    by (simp add: js_div_Fin)
  from assms have r1: "1 \<le> cw / w" by simp
  have "pow2 (- 1022) \<le> pow2 0" by (rule pow2_mono) simp
  moreover have "pow2 0 = 1" by (simp add: pow2_def)
  ultimately have "pow2 (- 1022) \<le> cw / w" using r1 by linarith
  from round64_normal [OF this assms(3)] obtain v where
    v: "round64 (cw / w) = Fin v" and err: "\<bar>v - cw / w\<bar> \<le> cw / w * pow2 (- 53)"
    by blast
  from round64_ge_1 [OF r1] v have v1: "1 \<le> v" by auto
  then have n1: "1 \<le> \<lfloor>v\<rfloor>" by (simp add: le_floor_iff)
  have "of_int \<lfloor>v\<rfloor> \<le> v" by simp
  also from err have "v \<le> cw / w * (1 + pow2 (- 53))"
    by (simp add: abs_le_iff algebra_simps)
  finally have "of_int \<lfloor>v\<rfloor> \<le> cw / w * (1 + pow2 (- 53))" .
  then have "of_int \<lfloor>v\<rfloor> * w \<le> cw / w * (1 + pow2 (- 53)) * w"
    using assms(1) by (intro mult_right_mono) simp_all
  also have "\<dots> = cw * (1 + pow2 (- 53))" using assms(1) by simp
  finally have "of_int \<lfloor>v\<rfloor> * w \<le> cw * (1 + pow2 (- 53))" .
  with n1 v show ?thesis by (auto simp: d)
qed

section \<open>The efficiency of a colour group\<close>

lemma pow2_0: "pow2 0 = 1"
  by (simp add: pow2_def)

lemma pow2_minus_53: "pow2 (- 53) = 1 / 9007199254740992"
  by (simp add: pow2_def power_int_minus)

lemma pow2_minus_50: "pow2 (- 50) = 1 / 1125899906842624"
  by (simp add: pow2_def power_int_minus)

lemma scrapFactor_value: "scrapFactor = Fin (3602879701896397 / 72057594037927936)"
  by code_simp

text \<open>Rounding in the range of the normal numbers, as an interval.\<close>

lemma round64_interval:
  assumes "pow2 (- 1022) \<le> r" and "r < pow2 1023"
  obtains v where "round64 r = Fin v"
    and "r * (1 - 1 / 9007199254740992) \<le> v" and "v \<le> r * (1 + 1 / 9007199254740992)"
proof -
  from round64_normal [OF assms] obtain v where
    v: "round64 r = Fin v" and err: "\<bar>v - r\<bar> \<le> r * pow2 (- 53)"
    by blast
  from err have "\<bar>v - r\<bar> \<le> r / 9007199254740992" by (simp add: pow2_minus_53)
  then have e: "v - r \<le> r / 9007199254740992" "- (v - r) \<le> r / 9007199254740992"
    by (rule abs_le_D1, rule abs_le_D2)
  have "r * (1 - 1 / 9007199254740992) \<le> v" using e(2) by (simp add: algebra_simps)
  moreover have "v \<le> r * (1 + 1 / 9007199254740992)" using e(1) by (simp add: algebra_simps)
  ultimately show ?thesis using v by (intro that)
qed

text \<open>A number between 1/4 and 256 is in that range.\<close>

lemma moderate_normal:
  assumes "1 / 4 \<le> r" and "r \<le> 256"
  shows "pow2 (- 1022) \<le> r" and "r < pow2 1023"
proof -
  have "pow2 (- 1022) \<le> pow2 (- 2)" by (rule pow2_mono) simp
  moreover have "pow2 (- 2) = 1 / 4" by (simp add: pow2_def power_int_minus)
  ultimately show "pow2 (- 1022) \<le> r" using assms(1) by linarith
  have "pow2 9 \<le> pow2 1023" by (rule pow2_mono) simp
  moreover have "pow2 9 = 512" by (simp add: pow2_def)
  ultimately show "r < pow2 1023" using assms(2) by linarith
qed

text \<open>\<^verbatim>\<open>toFixed(2)\<close> of a number from 95.235 up to, but not including, 95.245.\<close>

lemma toFixed_9524:
  assumes "95235 / 1000 \<le> x" and "x < 95245 / 1000"
  shows "toFixed 2 (Fin x) = Str ''95.24''"
proof -
  from assms have "\<lfloor>x * 100 + 1 / 2\<rfloor> = 9524" by (simp add: floor_eq_iff)
  moreover from assms have "\<bar>x\<bar> = x" "\<not> 10 ^ 21 \<le> x" "\<not> x < 0" by simp_all
  moreover have "fixed_digits 2 9524 = ''95.24''" by code_simp
  ultimately show ?thesis by simp
qed

text \<open>
  The four operations behind the efficiency of a group, for a base between
  \<open>2^(-1000)\<close> and \<open>2^1000\<close>: the scrap is within a relative error of \<open>2^(-53)\<close> of
  base times 0.05, the total within that of base plus scrap, the quotient within
  that of base by total, and so is the quotient times 100.
\<close>

lemma efficiency_bounds:
  assumes "pow2 (- 1000) \<le> b" and "b \<le> pow2 1000"
  shows "\<exists>s t q x. js_mul (Fin b) scrapFactor = Fin s \<and> js_add (Fin b) (Fin s) = Fin t
           \<and> js_div (Fin b) (Fin t) = Fin q \<and> js_mul (Fin q) (Fin 100) = Fin x
           \<and> \<bar>q - 1 / (1 + mag scrapFactor)\<bar> \<le> pow2 (- 50)
           \<and> 95235 / 1000 \<le> x \<and> x < 95245 / 1000"
proof -
  define S :: rat where "S = 3602879701896397 / 72057594037927936"
  from pow2_pos [of "- 1000"] assms(1) have b: "0 < b" by linarith
  have m: "js_mul (Fin b) scrapFactor = round64 (b * S)"
    using b by (simp add: scrapFactor_value js_mul_Fin S_def)
  have "pow2 (- 1022) \<le> pow2 (- 1000 + - 5)" by (rule pow2_mono) simp
  also have "\<dots> = pow2 (- 1000) * pow2 (- 5)" by (rule pow2_add)
  also have "\<dots> \<le> b * pow2 (- 5)" using assms(1) pow2_pos [of "- 5"] by (simp add: mult_right_mono)
  also have "\<dots> \<le> b * S"
  proof -
    have "pow2 (- 5) \<le> S" by (simp add: pow2_def power_int_minus S_def)
    then show ?thesis using b by (simp add: mult_left_mono)
  qed
  finally have r1: "pow2 (- 1022) \<le> b * S" .
  have "b * S \<le> b * 1" using b by (intro mult_left_mono) (simp_all add: S_def)
  also have "\<dots> \<le> pow2 1000" using assms(2) by simp
  also have "\<dots> < pow2 1023" using pow2_less_cancel [of 1023 1000] pow2_mono [of 1000 1023]
    by (cases "pow2 1000 = pow2 1023") (auto simp: pow2_def)
  finally have r2: "b * S < pow2 1023" .
  from round64_interval [OF r1 r2] obtain s where
    s: "round64 (b * S) = Fin s"
    and s1: "b * S * (1 - 1 / 9007199254740992) \<le> s"
    and s2: "s \<le> b * S * (1 + 1 / 9007199254740992)"
    by blast
  have s0: "0 < s" using s1 b by (simp add: S_def zero_less_mult_iff)
  define s' where "s' = s / b"
  have s': "S * (1 - 1 / 9007199254740992) \<le> s'" "s' \<le> S * (1 + 1 / 9007199254740992)"
    using s1 s2 b by (simp_all add: s'_def field_simps)
  have a: "js_add (Fin b) (Fin s) = round64 (b + s)" by simp
  have bs: "b + s = b * (1 + s')" using b by (simp add: s'_def field_simps)
  have "1 + s' \<le> 2" using s'(2) by (simp add: S_def)
  then have "b * (1 + s') \<le> b * 2" using b by (intro mult_left_mono) simp_all
  also have "\<dots> \<le> pow2 1000 * pow2 1" using assms(2) by (simp add: pow2_def)
  also have "\<dots> = pow2 (1000 + 1)" by (rule pow2_add [symmetric])
  also have "\<dots> < pow2 1023"
    using pow2_less_cancel [of 1023 1001] pow2_mono [of 1001 1023]
    by (cases "pow2 1001 = pow2 1023") (auto simp: pow2_def)
  finally have r4: "b + s < pow2 1023" by (simp add: bs)
  have "pow2 (- 1022) \<le> pow2 (- 1000)" by (rule pow2_mono) simp
  also have "\<dots> \<le> b" by (rule assms(1))
  also have "\<dots> \<le> b + s" using s0 by simp
  finally have r3: "pow2 (- 1022) \<le> b + s" .
  from round64_interval [OF r3 r4] obtain t where
    t: "round64 (b + s) = Fin t"
    and t1: "(b + s) * (1 - 1 / 9007199254740992) \<le> t"
    and t2: "t \<le> (b + s) * (1 + 1 / 9007199254740992)"
    by blast
  define t' where "t' = t / b"
  have t': "(1 + s') * (1 - 1 / 9007199254740992) \<le> t'" "t' \<le> (1 + s') * (1 + 1 / 9007199254740992)"
    using t1 t2 b unfolding bs by (simp_all add: t'_def field_simps)
  have "(1 + S * (1 - 1 / 9007199254740992)) * (1 - 1 / 9007199254740992)
          \<le> (1 + s') * (1 - 1 / 9007199254740992)"
    using s'(1) by (intro mult_right_mono) simp_all
  from this t'(1) have tlo: "(1 + S * (1 - 1 / 9007199254740992)) * (1 - 1 / 9007199254740992) \<le> t'"
    by (rule order_trans)
  have "(1 + s') * (1 + 1 / 9007199254740992)
          \<le> (1 + S * (1 + 1 / 9007199254740992)) * (1 + 1 / 9007199254740992)"
    using s'(2) by (intro mult_right_mono) simp_all
  from t'(2) this have thi: "t' \<le> (1 + S * (1 + 1 / 9007199254740992)) * (1 + 1 / 9007199254740992)"
    by (rule order_trans)
  have t'0: "0 < t'" using tlo by (simp add: S_def)
  then have t0: "0 < t" using b by (simp add: t'_def zero_less_divide_iff)
  have d: "js_div (Fin b) (Fin t) = round64 (b / t)"
    using b t0 by (simp add: js_div_Fin)
  have bt: "b / t = 1 / t'" using b by (simp add: t'_def)
  have rlo: "1 / ((1 + S * (1 + 1 / 9007199254740992)) * (1 + 1 / 9007199254740992)) \<le> 1 / t'"
    using thi t'0 by (intro divide_left_mono) (simp_all add: S_def)
  have rhi: "1 / t' \<le> 1 / ((1 + S * (1 - 1 / 9007199254740992)) * (1 - 1 / 9007199254740992))"
    using tlo t'0 by (intro divide_left_mono) (simp_all add: S_def)
  have "1 / 4 \<le> b / t" "b / t \<le> 256"
    using rlo rhi unfolding bt by (simp_all add: S_def)
  from round64_interval [OF moderate_normal [OF this]] obtain q where
    q: "round64 (b / t) = Fin q"
    and q1: "b / t * (1 - 1 / 9007199254740992) \<le> q"
    and q2: "q \<le> b / t * (1 + 1 / 9007199254740992)"
    by blast
  have "1 / ((1 + S * (1 + 1 / 9007199254740992)) * (1 + 1 / 9007199254740992))
               * (1 - 1 / 9007199254740992) \<le> 1 / t' * (1 - 1 / 9007199254740992)"
    using rlo by (intro mult_right_mono) simp_all
  from this q1 have qlo: "1 / ((1 + S * (1 + 1 / 9007199254740992)) * (1 + 1 / 9007199254740992))
               * (1 - 1 / 9007199254740992) \<le> q"
    unfolding bt by (rule order_trans)
  have "1 / t' * (1 + 1 / 9007199254740992)
          \<le> 1 / ((1 + S * (1 - 1 / 9007199254740992)) * (1 - 1 / 9007199254740992))
               * (1 + 1 / 9007199254740992)"
    using rhi by (intro mult_right_mono) simp_all
  from q2 this have qhi: "q \<le> 1 / ((1 + S * (1 - 1 / 9007199254740992)) * (1 - 1 / 9007199254740992))
               * (1 + 1 / 9007199254740992)"
    unfolding bt by (rule order_trans)
  have c: "1 / (1 + mag scrapFactor) = 72057594037927936 / 75660473739824333"
    by (simp add: scrapFactor_value)
  have "72057594037927936 / 75660473739824333 - 1 / 1125899906842624
          \<le> 1 / ((1 + S * (1 + 1 / 9007199254740992)) * (1 + 1 / 9007199254740992))
               * (1 - 1 / 9007199254740992)"
    by (simp add: S_def)
  from this qlo have l: "72057594037927936 / 75660473739824333 - 1 / 1125899906842624 \<le> q"
    by (rule order_trans)
  have "1 / ((1 + S * (1 - 1 / 9007199254740992)) * (1 - 1 / 9007199254740992))
               * (1 + 1 / 9007199254740992)
          \<le> 72057594037927936 / 75660473739824333 + 1 / 1125899906842624"
    by (simp add: S_def)
  from qhi this have h': "q \<le> 72057594037927936 / 75660473739824333 + 1 / 1125899906842624"
    by (rule order_trans)
  from l h' have "\<bar>q - 72057594037927936 / 75660473739824333\<bar> \<le> 1 / 1125899906842624"
    by (intro abs_leI) linarith+
  then have qerr: "\<bar>q - 1 / (1 + mag scrapFactor)\<bar> \<le> pow2 (- 50)"
    by (simp only: c pow2_minus_50)
  have q0: "0 < q" using qlo by (simp add: S_def)
  have h: "js_mul (Fin q) (Fin 100) = round64 (q * 100)"
    using q0 by (simp add: js_mul_Fin)
  have "1 / 4 \<le> q * 100" "q * 100 \<le> 256"
    using qlo qhi by (simp_all add: S_def)
  from round64_interval [OF moderate_normal [OF this]] obtain x where
    x: "round64 (q * 100) = Fin x"
    and x1: "q * 100 * (1 - 1 / 9007199254740992) \<le> x"
    and x2: "x \<le> q * 100 * (1 + 1 / 9007199254740992)"
    by blast
  have "95235 / 1000 \<le> x" "x < 95245 / 1000"
    using x1 x2 qlo qhi by (simp_all add: S_def)
  with m s a t d q h x qerr show ?thesis by simp
qed

section \<open>The colour table\<close>

lemma colors_lower_distinct: "distinct (map (toLowerCase \<circ> snd) colors)"
  by code_simp

lemma getColorCode_entries_match:
  "distinct (map (toLowerCase \<circ> snd) entries) \<Longrightarrow> (code, name) \<in> set entries
     \<Longrightarrow> toLowerCase name = toLowerCase colorName
     \<Longrightarrow> getColorCode_entries entries colorName = code"
proof (induction entries colorName rule: getColorCode_entries.induct)
  case (1 colorName)
  then show ?case by simp
next
  case (2 code' name' entries colorName)
  show ?case
  proof (cases "toLowerCase name' = toLowerCase colorName")
    case True
    have "(code, name) = (code', name')"
    proof (rule ccontr)
      assume "(code, name) \<noteq> (code', name')"
      with "2.prems"(2) have "(code, name) \<in> set entries" by auto
      then have "toLowerCase name \<in> set (map (toLowerCase \<circ> snd) entries)" by force
      with "2.prems"(1,3) True show False by simp
    qed
    with True show ?thesis by simp
  next
    case False
    with "2.prems"(2,3) have "(code, name) \<in> set entries" by auto
    with "2.IH" [OF False] "2.prems"(1,3) False show ?thesis by simp
  qed
qed

lemma getColorCode_entries_none:
  "\<forall>e \<in> set entries. toLowerCase (snd e) \<noteq> toLowerCase colorName
     \<Longrightarrow> getColorCode_entries entries colorName = ''CUSTOM''"
  by (induction entries colorName rule: getColorCode_entries.induct) auto

section \<open>The claims\<close>



text \<open>
  C2. In every colour group of an answer, baseLinearFeet is the sum of the totalFeet
  of the group's patterns (added from the left, starting at 0), scrapFeet is
  baseLinearFeet times the scrap factor, totalLinearFeet is their sum, and coilsNeeded
  is the ceiling of totalLinearFeet by the standard roll length; the sums, the product
  and the quotient are those of binary64, and the scrap factor is the binary64 value
  of 0.05. For the one Full-Width line of quantity 45, length 16 and width 43.875 in
  Ash Gray on the coil of 43.875, the group has 720, 36, 756 and 8. Where the
  operations round, the fields are the rounded ones: a base of 3 feet has
  0.15000000000000002 feet of scrap, and the lines of 30 by 8 and 100 by 17.6 feet
  have 2000.0000000000002 base feet, 2100.0000000000005 feet with scrap and need 22
  coils.
\<close>

theorem C2_color_group_totals:
  "(\<forall>req resp c g.
      optimize req = Inr resp \<and> (c, g) \<in> set (optimization resp) \<longrightarrow>
        baseLinearFeet g = foldl js_add (Fin 0) (map totalFeet (patterns g))
      \<and> scrapFeet g = js_mul (baseLinearFeet g) scrapFactor
      \<and> totalLinearFeet g = js_add (baseLinearFeet g) (scrapFeet g)
      \<and> coilsNeeded g = js_ceil (js_div (totalLinearFeet g) standardRollLength))
   \<and> scrapFactor = Fin (3602879701896397 / 72057594037927936)
   \<and> standardRollLength = Fin 100
   \<and> map fst (optimization (projr (optimize scenario_A))) = [''Ash Gray'']
   \<and> map (baseLinearFeet \<circ> snd) (optimization (projr (optimize scenario_A))) = [Fin 720]
   \<and> map (scrapFeet \<circ> snd) (optimization (projr (optimize scenario_A))) = [Fin 36]
   \<and> map (totalLinearFeet \<circ> snd) (optimization (projr (optimize scenario_A))) = [Fin 756]
   \<and> map (coilsNeeded \<circ> snd) (optimization (projr (optimize scenario_A))) = [Fin 8]
   \<and> map (baseLinearFeet \<circ> snd) (optimization (projr (optimize three_request))) = [Fin 3]
   \<and> map (scrapFeet \<circ> snd) (optimization (projr (optimize three_request))) =
       [Fin (1351079888211149 / 9007199254740992)]
   \<and> map (baseLinearFeet \<circ> snd) (optimization (projr (optimize two_line_request))) =
       [Fin (8796093022208001 / 4398046511104)]
   \<and> map (totalLinearFeet \<circ> snd) (optimization (projr (optimize two_line_request))) =
       [Fin (4617948836659201 / 2199023255552)]
   \<and> map (coilsNeeded \<circ> snd) (optimization (projr (optimize two_line_request))) = [Fin 22]"
proof -
  have "baseLinearFeet g = foldl js_add (Fin 0) (map totalFeet (patterns g))
      \<and> scrapFeet g = js_mul (baseLinearFeet g) scrapFactor
      \<and> totalLinearFeet g = js_add (baseLinearFeet g) (scrapFeet g)
      \<and> coilsNeeded g = js_ceil (js_div (totalLinearFeet g) standardRollLength)"
    if "optimize req = Inr resp \<and> (c, g) \<in> set (optimization resp)" for req resp c g
  proof -
    from that obtain its where "g = optimize_group (coilWidth_of req) c its"
      using optimize_group_mem by blast
    then show ?thesis
      using base_optimize_group group_fields(1,2,3) by simp
  qed
  moreover have "scrapFactor = Fin (3602879701896397 / 72057594037927936)"
    "standardRollLength = Fin 100"
    by code_simp+
  moreover have "map fst (optimization (projr (optimize scenario_A))) = [''Ash Gray'']"
    "map (baseLinearFeet \<circ> snd) (optimization (projr (optimize scenario_A))) = [Fin 720]"
    "map (scrapFeet \<circ> snd) (optimization (projr (optimize scenario_A))) = [Fin 36]"
    "map (totalLinearFeet \<circ> snd) (optimization (projr (optimize scenario_A))) = [Fin 756]"
    "map (coilsNeeded \<circ> snd) (optimization (projr (optimize scenario_A))) = [Fin 8]"
    by (simp_all add: scenario_A_answer scenario_A_group)
  moreover have "map (baseLinearFeet \<circ> snd) (optimization (projr (optimize three_request))) = [Fin 3]"
    "map (scrapFeet \<circ> snd) (optimization (projr (optimize three_request))) =
       [Fin (1351079888211149 / 9007199254740992)]"
    by (simp_all add: three_answer three_group)
  moreover have "map (baseLinearFeet \<circ> snd) (optimization (projr (optimize two_line_request))) =
       [Fin (8796093022208001 / 4398046511104)]"
    "map (totalLinearFeet \<circ> snd) (optimization (projr (optimize two_line_request))) =
       [Fin (4617948836659201 / 2199023255552)]"
    "map (coilsNeeded \<circ> snd) (optimization (projr (optimize two_line_request))) = [Fin 22]"
    by (simp_all add: two_line_answer two_line_group)
  ultimately show ?thesis by blast
qed

theorem C2_color_group_totals_witness:
  "optimize two_line_request = Inr (projr (optimize two_line_request))
   \<and> (''Ash Gray'', snd (hd (optimization (projr (optimize two_line_request)))))
        \<in> set (optimization (projr (optimize two_line_request)))
   \<and> baseLinearFeet (snd (hd (optimization (projr (optimize two_line_request))))) =
       js_add (js_add (Fin 0) (Fin 240)) (Fin (7740561859543041 / 4398046511104))
   \<and> baseLinearFeet (snd (hd (optimization (projr (optimize two_line_request))))) =
       Fin (8796093022208001 / 4398046511104)
   \<and> scrapFeet (snd (hd (optimization (projr (optimize two_line_request))))) =
       js_mul (Fin (8796093022208001 / 4398046511104)) scrapFactor
   \<and> scrapFeet (snd (hd (optimization (projr (optimize two_line_request))))) =
       Fin (7036874417766401 / 70368744177664)
   \<and> totalLinearFeet (snd (hd (optimization (projr (optimize two_line_request))))) =
       Fin (4617948836659201 / 2199023255552)
   \<and> coilsNeeded (snd (hd (optimization (projr (optimize two_line_request))))) =
       js_ceil (js_div (Fin (4617948836659201 / 2199023255552)) standardRollLength)
   \<and> coilsNeeded (snd (hd (optimization (projr (optimize two_line_request))))) = Fin 22"
proof -
  let ?g = "snd (hd (optimization (projr (optimize two_line_request))))"
  have ok: "optimize two_line_request = Inr (projr (optimize two_line_request))"
    by (simp add: two_line_answer)
  have m: "(''Ash Gray'', ?g) \<in> set (optimization (projr (optimize two_line_request)))"
    by (simp add: two_line_answer)
  have p: "map totalFeet (patterns ?g) = [Fin 240, Fin (7740561859543041 / 4398046511104)]"
    by (simp add: two_line_answer two_line_group)
  have v: "baseLinearFeet ?g = Fin (8796093022208001 / 4398046511104)"
    "scrapFeet ?g = Fin (7036874417766401 / 70368744177664)"
    "totalLinearFeet ?g = Fin (4617948836659201 / 2199023255552)"
    "coilsNeeded ?g = Fin 22"
    by (simp_all add: two_line_answer two_line_group)
  note inst = C2_color_group_totals [THEN conjunct1, rule_format, OF conjI [OF ok m]]
  from inst [THEN conjunct1]
  have b: "baseLinearFeet ?g = js_add (js_add (Fin 0) (Fin 240)) (Fin (7740561859543041 / 4398046511104))"
    unfolding p by (simp del: js_add.simps)
  from inst [THEN conjunct2, THEN conjunct1]
  have s: "scrapFeet ?g = js_mul (Fin (8796093022208001 / 4398046511104)) scrapFactor"
    unfolding v(1) .
  from inst [THEN conjunct2, THEN conjunct2, THEN conjunct2]
  have c: "coilsNeeded ?g = js_ceil (js_div (Fin (4617948836659201 / 2199023255552)) standardRollLength)"
    unfolding v(3) .
  from ok m b s c v show ?thesis by blast
qed

text \<open>
  C3, as stated, fails: the summary holds its three totals as strings printed by
  \<^verbatim>\<open>toFixed(2)\<close>. For one Full-Width line of quantity 1 and length 0.094 the group
  has 0.094 base feet and 0.0987 feet with scrap; the summary prints 0.09, 0.00 and
  0.10. So its totalLinearFeet is not the exact sum of the groups' baseLinearFeet, and
  its totalWithScrap is not its totalLinearFeet plus its scrapFeet.
\<close>

theorem C3_summary_rounded_counterexample:
  "\<not> isl (optimize rounding_request)
   \<and> map (baseLinearFeet \<circ> snd) (optimization (projr (optimize rounding_request))) =
       [Fin (3386706919782613 / 36028797018963968)]
   \<and> totalLinearFeet_s (summary (projr (optimize rounding_request))) = Str ''0.09''
   \<and> scrapFeet_s (summary (projr (optimize rounding_request))) = Str ''0.00''
   \<and> totalWithScrap (summary (projr (optimize rounding_request))) = Str ''0.10''
   \<and> decimal_value (totalLinearFeet_s (summary (projr (optimize rounding_request))))
       \<noteq> js_val (sum_baseLinearFeet (projr (optimize rounding_request)))
   \<and> decimal_value (totalWithScrap (summary (projr (optimize rounding_request))))
       \<noteq> Some (the (decimal_value (totalLinearFeet_s (summary (projr (optimize rounding_request)))))
               + the (decimal_value (scrapFeet_s (summary (projr (optimize rounding_request))))))"
proof -
  have d: "unsigned_decimal ''0.09'' = Some (9 / 100)" "unsigned_decimal ''0.00'' = Some 0"
    "unsigned_decimal ''0.10'' = Some (1 / 10)"
    by code_simp+
  show ?thesis
    by (simp add: rounding_answer rounding_group rounding_sums rounding_summary
          sum_baseLinearFeet_def d)
qed

text \<open>
  C3, amended. In every answer, the summary's totalLinearFeet is the sum of the
  groups' baseLinearFeet printed by \<^verbatim>\<open>toFixed(2)\<close>, its totalWithScrap is the sum of
  the groups' totalLinearFeet printed by \<^verbatim>\<open>toFixed(2)\<close>, and its scrapFeet is the
  second sum minus the first, printed by \<^verbatim>\<open>toFixed(2)\<close>; the sums and the
  difference are those of binary64, the groups added from the left in the order of
  the answer, starting at 0. The three printed values need not add up. For two colours
  with one Full-Width line of 100 feet each, the groups have 105 feet each and the
  summary prints 200.00, 10.00 and 210.00; for one line of 7 pieces of 10.5 feet it
  prints 73.50, 3.67 and 77.17.
\<close>

theorem C3_summary_totals:
  "(\<forall>req resp. optimize req = Inr resp \<longrightarrow>
        totalLinearFeet_s (summary resp) = toFixed 2 (sum_baseLinearFeet resp)
      \<and> totalWithScrap (summary resp) = toFixed 2 (sum_totalLinearFeet resp)
      \<and> scrapFeet_s (summary resp) =
          toFixed 2 (js_sub (sum_totalLinearFeet resp) (sum_baseLinearFeet resp)))
   \<and> map (totalLinearFeet \<circ> snd) (optimization (projr (optimize scenario_D))) = [Fin 105, Fin 105]
   \<and> totalLinearFeet_s (summary (projr (optimize scenario_D))) = Str ''200.00''
   \<and> scrapFeet_s (summary (projr (optimize scenario_D))) = Str ''10.00''
   \<and> totalWithScrap (summary (projr (optimize scenario_D))) = Str ''210.00''
   \<and> totalLinearFeet_s (summary (projr (optimize seven_request))) = Str ''73.50''
   \<and> scrapFeet_s (summary (projr (optimize seven_request))) = Str ''3.67''
   \<and> totalWithScrap (summary (projr (optimize seven_request))) = Str ''77.17''"
proof -
  have "totalLinearFeet_s (summary resp) = toFixed 2 (sum_baseLinearFeet resp)
      \<and> totalWithScrap (summary resp) = toFixed 2 (sum_totalLinearFeet resp)
      \<and> scrapFeet_s (summary resp) =
          toFixed 2 (js_sub (sum_totalLinearFeet resp) (sum_baseLinearFeet resp))"
    if "optimize req = Inr resp" for req resp
  proof -
    from that have "summary resp = make_summary (coilWidth_of req)
        (sum_baseLinearFeet resp) (sum_totalLinearFeet resp)"
      by (rule optimize_Inr)
    then show ?thesis by (simp add: make_summary_def Let_def)
  qed
  moreover have
    "map (totalLinearFeet \<circ> snd) (optimization (projr (optimize scenario_D))) = [Fin 105, Fin 105]"
    "totalLinearFeet_s (summary (projr (optimize scenario_D))) = Str ''200.00''"
    "scrapFeet_s (summary (projr (optimize scenario_D))) = Str ''10.00''"
    "totalWithScrap (summary (projr (optimize scenario_D))) = Str ''210.00''"
    by (simp_all add: scenario_D_answer ten_group black_group scenario_D_sums scenario_D_summary)
  moreover have
    "totalLinearFeet_s (summary (projr (optimize seven_request))) = Str ''73.50''"
    "scrapFeet_s (summary (projr (optimize seven_request))) = Str ''3.67''"
    "totalWithScrap (summary (projr (optimize seven_request))) = Str ''77.17''"
    by (simp_all add: seven_answer seven_group seven_sums seven_summary)
  ultimately show ?thesis by blast
qed

theorem C3_summary_totals_witness:
  "optimize seven_request = Inr (projr (optimize seven_request))
   \<and> sum_baseLinearFeet (projr (optimize seven_request)) = Fin (147 / 2)
   \<and> sum_totalLinearFeet (projr (optimize seven_request)) = Fin (5430707831911219 / 70368744177664)
   \<and> js_sub (Fin (5430707831911219 / 70368744177664)) (Fin (147 / 2)) =
       Fin (258605134852915 / 70368744177664)
   \<and> totalLinearFeet_s (summary (projr (optimize seven_request))) = toFixed 2 (Fin (147 / 2))
   \<and> totalWithScrap (summary (projr (optimize seven_request))) =
       toFixed 2 (Fin (5430707831911219 / 70368744177664))
   \<and> scrapFeet_s (summary (projr (optimize seven_request))) =
       toFixed 2 (Fin (258605134852915 / 70368744177664))
   \<and> toFixed 2 (Fin (147 / 2)) = Str ''73.50''
   \<and> toFixed 2 (Fin (5430707831911219 / 70368744177664)) = Str ''77.17''
   \<and> toFixed 2 (Fin (258605134852915 / 70368744177664)) = Str ''3.67''"
proof -
  have ok: "optimize seven_request = Inr (projr (optimize seven_request))"
    by (simp add: seven_answer)
  have b: "sum_baseLinearFeet (projr (optimize seven_request)) = Fin (147 / 2)"
    and t: "sum_totalLinearFeet (projr (optimize seven_request)) =
              Fin (5430707831911219 / 70368744177664)"
    by (simp_all add: seven_answer seven_group seven_sums sum_baseLinearFeet_def
          sum_totalLinearFeet_def)
  have d: "js_sub (Fin (5430707831911219 / 70368744177664)) (Fin (147 / 2)) =
       Fin (258605134852915 / 70368744177664)"
    by code_simp
  have f: "toFixed 2 (Fin (147 / 2)) = Str ''73.50''"
    "toFixed 2 (Fin (5430707831911219 / 70368744177664)) = Str ''77.17''"
    "toFixed 2 (Fin (258605134852915 / 70368744177664)) = Str ''3.67''"
    by code_simp+
  note inst = C3_summary_totals [THEN conjunct1, rule_format, OF ok]
  from inst [THEN conjunct1] have 1:
    "totalLinearFeet_s (summary (projr (optimize seven_request))) = toFixed 2 (Fin (147 / 2))"
    unfolding b .
  from inst [THEN conjunct2, THEN conjunct1] have 2:
    "totalWithScrap (summary (projr (optimize seven_request))) =
       toFixed 2 (Fin (5430707831911219 / 70368744177664))"
    unfolding t .
  from inst [THEN conjunct2, THEN conjunct2] have 3:
    "scrapFeet_s (summary (projr (optimize seven_request))) =
       toFixed 2 (Fin (258605134852915 / 70368744177664))"
    unfolding b t d .
  from ok b t d f 1 2 3 show ?thesis by blast
qed

text \<open>
  C4, as stated, fails: the pricing block holds its amounts as strings printed by
  \<^verbatim>\<open>toFixed(2)\<close>. For one Full-Width line of quantity 1 and length 0.094 the total
  with scrap is 0.0987, printed as 0.10, and the material cost is 0.0987 times 3.85,
  that is 0.37999499999999997; the answer's materialCost is 0.38, which is neither
  that product nor 3.85 times the printed total.
\<close>

theorem C4_pricing_rounded_counterexample:
  "\<not> isl (optimize rounding_request)
   \<and> sum_totalLinearFeet (projr (optimize rounding_request)) =
       Fin (7112084531543487 / 72057594037927936)
   \<and> js_mul (Fin (7112084531543487 / 72057594037927936)) materialCostPerFoot =
       Fin (3422690680805303 / 9007199254740992)
   \<and> materialCost (pricing (summary (projr (optimize rounding_request)))) = Str ''0.38''
   \<and> totalWithScrap (summary (projr (optimize rounding_request))) = Str ''0.10''
   \<and> decimal_value (materialCost (pricing (summary (projr (optimize rounding_request)))))
       \<noteq> js_val (js_mul (sum_totalLinearFeet (projr (optimize rounding_request)))
                  materialCostPerFoot)
   \<and> decimal_value (materialCost (pricing (summary (projr (optimize rounding_request)))))
       \<noteq> Some (the (decimal_value (totalWithScrap (summary (projr (optimize rounding_request)))))
               * mag materialCostPerFoot)"
proof -
  have m: "js_mul (Fin (7112084531543487 / 72057594037927936)) materialCostPerFoot =
       Fin (3422690680805303 / 9007199254740992)"
    by code_simp
  have c: "mag materialCostPerFoot = 8669429282688205 / 2251799813685248"
    by code_simp
  have d: "unsigned_decimal ''0.38'' = Some (19 / 50)" "unsigned_decimal ''0.10'' = Some (1 / 10)"
    by code_simp+
  show ?thesis
    by (simp add: rounding_answer rounding_group rounding_sums rounding_summary
          sum_totalLinearFeet_def m c d)
qed

text \<open>
  C4, amended. In every answer the pricing is made once, from the sum of the groups'
  totalLinearFeet and not group by group: the material cost is that sum times 3.85,
  the labor cost that sum times 0.50, the total cost their sum, the sell price the
  total cost times 1 + 0.30, and the margin the sell price minus the total cost, all
  in binary64. The fields materialCost, laborCost, totalCost, sellPrice and margin of
  the answer are these five numbers, each printed by \<^verbatim>\<open>toFixed(2)\<close>. For one line
  of 10 pieces of 10 feet (105 feet with scrap) they are 404.25, 52.50, 456.75,
  593.77 and 137.02.
\<close>

theorem C4_pricing:
  "(\<forall>req resp. optimize req = Inr resp \<longrightarrow>
      (\<exists>mc lc tc sp.
           mc = js_mul (sum_totalLinearFeet resp) materialCostPerFoot
         \<and> lc = js_mul (sum_totalLinearFeet resp) pricing_laborPerFoot
         \<and> tc = js_add mc lc
         \<and> sp = js_mul tc (js_add (Fin 1) pricing_marginPercent)
         \<and> materialCost (pricing (summary resp)) = toFixed 2 mc
         \<and> laborCost (pricing (summary resp)) = toFixed 2 lc
         \<and> totalCost (pricing (summary resp)) = toFixed 2 tc
         \<and> sellPrice (pricing (summary resp)) = toFixed 2 sp
         \<and> margin (pricing (summary resp)) = toFixed 2 (js_sub sp tc)))
   \<and> materialCostPerFoot = Fin (8669429282688205 / 2251799813685248)
   \<and> pricing_laborPerFoot = Fin (1 / 2)
   \<and> pricing_marginPercent = Fin (5404319552844595 / 18014398509481984)
   \<and> pricing (summary (projr (optimize ten_request))) =
       \<lparr> materialCost = Str ''404.25'', laborCost = Str ''52.50'', totalCost = Str ''456.75'',
         sellPrice = Str ''593.77'', margin = Str ''137.02'', marginPercent = Str ''30%'' \<rparr>"
proof -
  have "\<exists>mc lc tc sp.
           mc = js_mul (sum_totalLinearFeet resp) materialCostPerFoot
         \<and> lc = js_mul (sum_totalLinearFeet resp) pricing_laborPerFoot
         \<and> tc = js_add mc lc
         \<and> sp = js_mul tc (js_add (Fin 1) pricing_marginPercent)
         \<and> materialCost (pricing (summary resp)) = toFixed 2 mc
         \<and> laborCost (pricing (summary resp)) = toFixed 2 lc
         \<and> totalCost (pricing (summary resp)) = toFixed 2 tc
         \<and> sellPrice (pricing (summary resp)) = toFixed 2 sp
         \<and> margin (pricing (summary resp)) = toFixed 2 (js_sub sp tc)"
    if "optimize req = Inr resp" for req resp
  proof -
    from that have "summary resp = make_summary (coilWidth_of req)
        (sum_baseLinearFeet resp) (sum_totalLinearFeet resp)"
      by (rule optimize_Inr)
    then show ?thesis by (simp add: make_summary_def Let_def)
  qed
  moreover have "materialCostPerFoot = Fin (8669429282688205 / 2251799813685248)"
    "pricing_laborPerFoot = Fin (1 / 2)"
    "pricing_marginPercent = Fin (5404319552844595 / 18014398509481984)"
    by code_simp+
  moreover have "pricing (summary (projr (optimize ten_request))) =
       \<lparr> materialCost = Str ''404.25'', laborCost = Str ''52.50'', totalCost = Str ''456.75'',
         sellPrice = Str ''593.77'', margin = Str ''137.02'', marginPercent = Str ''30%'' \<rparr>"
    by (simp add: ten_answer ten_group ten_sums ten_summary)
  ultimately show ?thesis by blast
qed

theorem C4_pricing_witness:
  "optimize ten_request = Inr (projr (optimize ten_request))
   \<and> sum_totalLinearFeet (projr (optimize ten_request)) = Fin 105
   \<and> materialCost (pricing (summary (projr (optimize ten_request)))) = toFixed 2 (Fin (1617 / 4))
   \<and> laborCost (pricing (summary (projr (optimize ten_request)))) = toFixed 2 (Fin (105 / 2))
   \<and> totalCost (pricing (summary (projr (optimize ten_request)))) = toFixed 2 (Fin (1827 / 4))
   \<and> sellPrice (pricing (summary (projr (optimize ten_request)))) =
       toFixed 2 (Fin (5222900134261555 / 8796093022208))
   \<and> margin (pricing (summary (projr (optimize ten_request)))) =
       toFixed 2 (Fin (1205284646368051 / 8796093022208))
   \<and> toFixed 2 (Fin (5222900134261555 / 8796093022208)) = Str ''593.77''
   \<and> toFixed 2 (Fin (1205284646368051 / 8796093022208)) = Str ''137.02''"
proof -
  have ok: "optimize ten_request = Inr (projr (optimize ten_request))"
    by (simp add: ten_answer)
  have t: "sum_totalLinearFeet (projr (optimize ten_request)) = Fin 105"
    by (simp add: ten_answer ten_group ten_sums sum_totalLinearFeet_def)
  have v: "js_mul (Fin 105) materialCostPerFoot = Fin (1617 / 4)"
    "js_mul (Fin 105) pricing_laborPerFoot = Fin (105 / 2)"
    "js_add (Fin (1617 / 4)) (Fin (105 / 2)) = Fin (1827 / 4)"
    "js_mul (Fin (1827 / 4)) (js_add (Fin 1) pricing_marginPercent) =
       Fin (5222900134261555 / 8796093022208)"
    "js_sub (Fin (5222900134261555 / 8796093022208)) (Fin (1827 / 4)) =
       Fin (1205284646368051 / 8796093022208)"
    by code_simp+
  have f: "toFixed 2 (Fin (5222900134261555 / 8796093022208)) = Str ''593.77''"
    "toFixed 2 (Fin (1205284646368051 / 8796093022208)) = Str ''137.02''"
    by code_simp+
  from C4_pricing [THEN conjunct1, rule_format, OF ok] obtain mc lc tc sp where
    e: "mc = js_mul (sum_totalLinearFeet (projr (optimize ten_request))) materialCostPerFoot"
      "lc = js_mul (sum_totalLinearFeet (projr (optimize ten_request))) pricing_laborPerFoot"
      "tc = js_add mc lc"
      "sp = js_mul tc (js_add (Fin 1) pricing_marginPercent)"
    and g: "materialCost (pricing (summary (projr (optimize ten_request)))) = toFixed 2 mc"
      "laborCost (pricing (summary (projr (optimize ten_request)))) = toFixed 2 lc"
      "totalCost (pricing (summary (projr (optimize ten_request)))) = toFixed 2 tc"
      "sellPrice (pricing (summary (projr (optimize ten_request)))) = toFixed 2 sp"
      "margin (pricing (summary (projr (optimize ten_request)))) = toFixed 2 (js_sub sp tc)"
    by blast
  have mc: "mc = Fin (1617 / 4)" unfolding e(1) t by (rule v(1))
  have lc: "lc = Fin (105 / 2)" unfolding e(2) t by (rule v(2))
  have tc: "tc = Fin (1827 / 4)" unfolding e(3) mc lc by (rule v(3))
  have sp: "sp = Fin (5222900134261555 / 8796093022208)" unfolding e(4) tc by (rule v(4))
  have mg: "js_sub sp tc = Fin (1205284646368051 / 8796093022208)" unfolding sp tc by (rule v(5))
  from g show ?thesis unfolding mg unfolding mc lc tc sp using ok t f by blast
qed

text \<open>
  C5, as stated, fails: a line of quantity -3 (length 10, width 14, default coil
  width) is not rejected. The answer has status 200 and a group of -10 base feet.
\<close>

theorem C5_invalid_accepted_counterexample:
  "\<not> isl (optimize negative_quantity_request)
   \<and> map (baseLinearFeet \<circ> snd) (optimization (projr (optimize negative_quantity_request))) =
       [Fin (- 10)]"
  by (simp add: negative_quantity_answer negative_quantity_group)

text \<open>
  C5, amended. The handler rejects a request with \<^verbatim>\<open>'No items provided'\<close> (status
  400) exactly when \<^verbatim>\<open>items\<close> is absent or another falsy value, or has the length
  0, before any computation and with no part of a result; an empty list is rejected
  so. A value of \<^verbatim>\<open>items\<close> that is not an array (and has not the length 0), and an
  array that holds \<^verbatim>\<open>null\<close>, get the error \<^verbatim>\<open>'Optimization failed'\<close> (status 500),
  also with no part of a result. Quantity, length, width and coil width are not
  checked: two requests whose lists agree in the positions of \<^verbatim>\<open>null\<close> and in the
  colours of the lines get the same error or both get none, whatever their numbers
  are.
\<close>

theorem C5_rejected_requests:
  "((optimize req = Inl No_items_provided) =
      (items req = Items_falsy \<or> items req = Items_not_array True \<or> items req = Items_array []))
   \<and> (items req = Items_not_array False \<longrightarrow> optimize req = Inl Optimization_failed)
   \<and> (\<forall>els. items req = Items_array els \<and> Null_element \<in> set els \<longrightarrow>
         optimize req = Inl Optimization_failed)
   \<and> (\<forall>req'. alike_items (items req) (items req') \<longrightarrow>
         (\<forall>e. (optimize req = Inl e) = (optimize req' = Inl e)))
   \<and> optimize empty_request = Inl No_items_provided"
proof (intro conjI allI impI)
  show "(optimize req = Inl No_items_provided) =
      (items req = Items_falsy \<or> items req = Items_not_array True \<or> items req = Items_array [])"
    by (auto simp: optimize_Inl_iff split: items_value.splits)
next
  assume "items req = Items_not_array False"
  then show "optimize req = Inl Optimization_failed"
    by (simp add: optimize_Inl_iff)
next
  fix els
  assume "items req = Items_array els \<and> Null_element \<in> set els"
  then show "optimize req = Inl Optimization_failed"
    using group_items_null [of els "[]"] by (auto simp: optimize_Inl_iff)
next
  fix req' :: request and e
  assume a: "alike_items (items req) (items req')"
  show "(optimize req = Inl e) = (optimize req' = Inl e)"
  proof (cases "items req")
    case Items_falsy
    with a show ?thesis by (simp add: optimize_Inl_iff)
  next
    case (Items_not_array b)
    with a show ?thesis by (simp add: optimize_Inl_iff)
  next
    case (Items_array xs)
    with a obtain ys where ys: "items req' = Items_array ys" and l: "list_all2 alike xs ys"
      by (cases "items req'") simp_all
    from l have "(xs = []) = (ys = [])" by (auto simp: list_all2_Nil list_all2_Nil2)
    moreover from l have "isl (group_items [] xs) = isl (group_items [] ys)"
      by (rule group_items_alike)
    ultimately show ?thesis using Items_array ys by (simp add: optimize_Inl_iff)
  qed
next
  show "optimize empty_request = Inl No_items_provided"
    by (simp add: optimize_Inl_iff empty_request_def)
qed

theorem C5_rejected_requests_witness:
  "items empty_request = Items_array [] \<and> optimize empty_request = Inl No_items_provided
   \<and> items string_request = Items_not_array False
   \<and> optimize string_request = Inl Optimization_failed
   \<and> items null_request = Items_array [Item sample_A4AG, Null_element]
   \<and> Null_element \<in> set [Item sample_A4AG, Null_element]
   \<and> optimize null_request = Inl Optimization_failed
   \<and> alike_items (items scenario_B) (items negative_quantity_request)
   \<and> (optimize scenario_B = Inl Optimization_failed) =
       (optimize negative_quantity_request = Inl Optimization_failed)
   \<and> \<not> isl (optimize negative_quantity_request)"
proof -
  have e: "items empty_request = Items_array []" by (simp add: empty_request_def)
  from C5_rejected_requests [of empty_request, THEN conjunct1] e
  have 1: "optimize empty_request = Inl No_items_provided" by simp
  have s: "items string_request = Items_not_array False" by (simp add: string_request_def)
  from C5_rejected_requests [of string_request, THEN conjunct2, THEN conjunct1, THEN mp, OF s]
  have 2: "optimize string_request = Inl Optimization_failed" .
  have n: "items null_request = Items_array [Item sample_A4AG, Null_element]
             \<and> Null_element \<in> set [Item sample_A4AG, Null_element]"
    by (simp add: null_request_def)
  from C5_rejected_requests [of null_request, THEN conjunct2, THEN conjunct2, THEN conjunct1,
      rule_format, OF n]
  have 3: "optimize null_request = Inl Optimization_failed" .
  have a: "alike_items (items scenario_B) (items negative_quantity_request)"
    by (simp add: scenario_B_def negative_quantity_request_def sample_RIDGE_AG_def
          negative_quantity_item_def)
  from C5_rejected_requests [of scenario_B, THEN conjunct2, THEN conjunct2, THEN conjunct2,
      THEN conjunct1, rule_format, OF a]
  have 4: "(optimize scenario_B = Inl Optimization_failed) =
       (optimize negative_quantity_request = Inl Optimization_failed)" .
  have 5: "\<not> isl (optimize negative_quantity_request)"
    by (simp add: negative_quantity_answer)
  from e 1 s 2 n 3 a 4 5 show ?thesis by blast
qed

text \<open>
  C6, as stated, fails: piecesPerRow is the floor of the binary64 quotient of coil
  width by width, and that quotient can be rounded up. For a line of width 0.00001 on
  the coil of 43.875 the quotient is 4387500 (the width held is a little more than
  0.00001, the exact quotient a little less than 4387500), piecesPerRow is 4387500,
  and 4387500 times the width is more than 43.875, as an exact product and as the
  binary64 product 43.87500000000001.
\<close>

theorem C6_packing_exceeds_counterexample:
  "\<not> isl (optimize strip_request)
   \<and> coilWidth_of strip_request = Fin (351 / 8)
   \<and> map (patterns \<circ> snd) (optimization (projr (optimize strip_request))) =
       [[Nested_Trim ''STRIP'' (Fin 1) (Fin (5902958103587057 / 590295810358705651712))
           (Fin 4387500) (Fin 1) (Fin 1) (Fin 1) (Str ''100.0%'')]]
   \<and> (0::rat) < 5902958103587057 / 590295810358705651712
   \<and> (5902958103587057 / 590295810358705651712 :: rat) < 351 / 8
   \<and> (351 / 8 :: rat) < 4387500 * (5902958103587057 / 590295810358705651712)
   \<and> js_mul (Fin 4387500) (Fin (5902958103587057 / 590295810358705651712)) =
       Fin (6174857301590017 / 140737488355328)
   \<and> \<not> js_ge (Fin (351 / 8)) (Fin (6174857301590017 / 140737488355328))"
proof -
  have "js_mul (Fin 4387500) (Fin (5902958103587057 / 590295810358705651712)) =
       Fin (6174857301590017 / 140737488355328)"
    by code_simp
  moreover have "coilWidth_of strip_request = Fin (351 / 8)"
    by (simp add: strip_request_def coilWidth_of_def default_coilWidth)
  ultimately show ?thesis
    by (simp add: strip_answer strip_group js_ge_def)
qed

text \<open>
  C6, amended. For a line of an answer whose width is positive and strictly less
  than the finite coil width, where the quotient of coil width by width is below
  \<open>2^1023\<close> (its binary64 value is finite), the pattern is Nested, piecesPerRow is the
  floor of the binary64 quotient of coil width by width, an integer that is at least
  1; piecesPerRow times width is at most the coil width times \<open>1 + 2^(-53)\<close>, the
  rounding error of the quotient; and rowsNeeded is the ceiling of the binary64
  quotient of quantity by piecesPerRow.
\<close>

theorem C6_nested_packing:
  assumes "optimize req = Inr resp" and "(c, g) \<in> set (optimization resp)"
    and "i < length (items_g g)"
    and "coilWidth_of req = Fin cw" and "width (items_g g ! i) = Fin w"
    and "0 < w" and "w < cw" and "cw / w < pow2 1023"
  shows "\<exists>product qty n rowsNeeded len feet eff.
           patterns g ! i = Nested_Trim product qty (Fin w) (Fin (of_int n)) rowsNeeded len feet eff
           \<and> js_floor (js_div (Fin cw) (Fin w)) = Fin (of_int n)
           \<and> 1 \<le> n \<and> of_int n * w \<le> cw * (1 + pow2 (- 53))
           \<and> rowsNeeded = js_ceil (js_div qty (Fin (of_int n)))"
proof -
  let ?it = "items_g g ! i"
  have p: "patterns g ! i = line_pattern (Fin cw) ?it"
    using optimize_pattern_nth [OF assms(1,2,3)] assms(4) by simp
  have "\<not> js_ge (width ?it) (Fin cw)"
    using assms(5,7) by (simp add: narrower_not_ge)
  note np = line_pattern_nested [OF this]
  from narrower_packing [OF assms(6,7,8)] obtain n where
    ppr: "js_floor (js_div (Fin cw) (Fin w)) = Fin (of_int n)"
    and n1: "1 \<le> n" and fit: "of_int n * w \<le> cw * (1 + pow2 (- 53))"
    by blast
  have "patterns g ! i =
      Nested_Trim (productId ?it) (quantity ?it) (Fin w) (Fin (of_int n))
        (js_ceil (js_div (quantity ?it) (Fin (of_int n)))) (length_item ?it)
        (js_mul (js_ceil (js_div (quantity ?it) (Fin (of_int n)))) (length_item ?it))
        (js_concat (toFixed 1 (js_mul (js_div (js_mul (Fin w) (Fin (of_int n))) (Fin cw)) (Fin 100))) ''%'')"
    by (simp only: p np assms(5) ppr)
  with ppr n1 fit show ?thesis by blast
qed

theorem C6_nested_packing_witness:
  "optimize strip_request = Inr (projr (optimize strip_request))
   \<and> (''Black'', snd (hd (optimization (projr (optimize strip_request)))))
        \<in> set (optimization (projr (optimize strip_request)))
   \<and> 0 < length (items_g (snd (hd (optimization (projr (optimize strip_request))))))
   \<and> coilWidth_of strip_request = Fin (351 / 8)
   \<and> width (items_g (snd (hd (optimization (projr (optimize strip_request))))) ! 0) =
       Fin (5902958103587057 / 590295810358705651712)
   \<and> (0::rat) < 5902958103587057 / 590295810358705651712
   \<and> (5902958103587057 / 590295810358705651712 :: rat) < 351 / 8
   \<and> (351 / 8) / (5902958103587057 / 590295810358705651712) < pow2 1023
   \<and> js_floor (js_div (Fin (351 / 8)) (Fin (5902958103587057 / 590295810358705651712))) =
       Fin 4387500
   \<and> (\<exists>product qty rowsNeeded len feet eff.
         patterns (snd (hd (optimization (projr (optimize strip_request))))) ! 0 =
           Nested_Trim product qty (Fin (5902958103587057 / 590295810358705651712)) (Fin 4387500)
             rowsNeeded len feet eff
         \<and> rowsNeeded = js_ceil (js_div qty (Fin 4387500)))
   \<and> 4387500 * (5902958103587057 / 590295810358705651712) \<le> 351 / 8 * (1 + pow2 (- 53))"
proof -
  let ?g = "snd (hd (optimization (projr (optimize strip_request))))"
  have ok: "optimize strip_request = Inr (projr (optimize strip_request))"
    by (simp add: strip_answer)
  have m: "(''Black'', ?g) \<in> set (optimization (projr (optimize strip_request)))"
    by (simp add: strip_answer)
  have l: "0 < length (items_g ?g)"
    by (simp add: strip_answer strip_group)
  have cw: "coilWidth_of strip_request = Fin (351 / 8)"
    by (simp add: strip_request_def coilWidth_of_def default_coilWidth)
  have ws: "width strip_item = Fin (5902958103587057 / 590295810358705651712)"
    by code_simp
  have w: "width (items_g ?g ! 0) = Fin (5902958103587057 / 590295810358705651712)"
    by (simp add: strip_answer strip_group ws)
  have a: "(0::rat) < 5902958103587057 / 590295810358705651712"
    "(5902958103587057 / 590295810358705651712 :: rat) < 351 / 8"
    by simp_all
  have "pow2 64 \<le> pow2 1023" by (rule pow2_mono) simp
  moreover have "(351 / 8) / (5902958103587057 / 590295810358705651712) < pow2 64"
    by (simp add: pow2_def)
  ultimately have b: "(351 / 8) / (5902958103587057 / 590295810358705651712) < pow2 1023"
    by (rule less_le_trans [rotated])
  have f: "js_floor (js_div (Fin (351 / 8)) (Fin (5902958103587057 / 590295810358705651712))) =
       Fin 4387500"
    by code_simp
  from C6_nested_packing [OF ok m l cw w a b]
  obtain product qty n rowsNeeded len feet eff where
    p: "patterns ?g ! 0 =
      Nested_Trim product qty (Fin (5902958103587057 / 590295810358705651712)) (Fin (of_int n))
        rowsNeeded len feet eff"
    and n: "js_floor (js_div (Fin (351 / 8)) (Fin (5902958103587057 / 590295810358705651712))) =
       Fin (of_int n)"
    and fit: "of_int n * (5902958103587057 / 590295810358705651712) \<le> 351 / 8 * (1 + pow2 (- 53))"
    and r: "rowsNeeded = js_ceil (js_div qty (Fin (of_int n)))"
    by blast
  from n f have "(of_int n :: rat) = of_int 4387500" by simp
  then have n': "n = 4387500" by (simp only: of_int_eq_iff)
  from p r fit have "patterns ?g ! 0 =
      Nested_Trim product qty (Fin (5902958103587057 / 590295810358705651712)) (Fin 4387500)
        rowsNeeded len feet eff
      \<and> rowsNeeded = js_ceil (js_div qty (Fin 4387500))"
    and "4387500 * (5902958103587057 / 590295810358705651712) \<le> 351 / 8 * (1 + pow2 (- 53))"
    unfolding n' by simp_all
  with ok m l cw w a b f show ?thesis by blast
qed

text \<open>
  C7, as stated, fails: the handler has no check of piecesPerRow. With a coil width
  of -1 and a line of width -2, quantity 1 and length 1, the line is Nested,
  piecesPerRow is the floor of 0.5, that is 0, rowsNeeded is the ceiling of 1 / 0,
  that is Infinity, and the answer has status 200.
\<close>

theorem C7_zero_pieces_counterexample:
  "\<not> isl (optimize degenerate_request)
   \<and> map (patterns \<circ> snd) (optimization (projr (optimize degenerate_request))) =
       [[Nested_Trim ''TRIM'' (Fin 1) (Fin (- 2)) (Fin 0) PosInf (Fin 1) PosInf (Str ''0.0%'')]]"
  by (simp add: degenerate_answer degenerate_group)

text \<open>
  C7, amended. The handler has no error for a zero piecesPerRow and no check of it.
  For a finite coil width and a line whose width is positive and less than the coil
  width, the pattern is Nested and its piecesPerRow is an integer that is at least 1,
  or Infinity (when the quotient of coil width by width overflows); so it is not
  zero, and rowsNeeded is the ceiling of the binary64 quotient of quantity by it: a
  zero piecesPerRow does not reach the division there.
\<close>

theorem C7_pieces_never_zero:
  assumes "optimize req = Inr resp" and "(c, g) \<in> set (optimization resp)"
    and "i < length (items_g g)"
    and "coilWidth_of req = Fin cw" and "width (items_g g ! i) = Fin w"
    and "0 < w" and "w < cw"
  shows "\<exists>product qty piecesPerRow rowsNeeded len feet eff.
           patterns g ! i = Nested_Trim product qty (Fin w) piecesPerRow rowsNeeded len feet eff
           \<and> (piecesPerRow = PosInf \<or> (\<exists>n. piecesPerRow = Fin (of_int n) \<and> 1 \<le> n))
           \<and> \<not> is_zero piecesPerRow
           \<and> rowsNeeded = js_ceil (js_div qty piecesPerRow)"
proof -
  let ?it = "items_g g ! i"
  let ?ppr = "js_floor (js_div (Fin cw) (Fin w))"
  have p: "patterns g ! i = line_pattern (Fin cw) ?it"
    using optimize_pattern_nth [OF assms(1,2,3)] assms(4) by simp
  have "\<not> js_ge (width ?it) (Fin cw)"
    using assms(5,7) by (simp add: narrower_not_ge)
  note np = line_pattern_nested [OF this]
  have q: "?ppr = PosInf \<or> (\<exists>n. ?ppr = Fin (of_int n) \<and> 1 \<le> n)"
    by (rule narrower_pieces [OF assms(6,7)])
  then have z: "\<not> is_zero ?ppr" by auto
  have "patterns g ! i =
      Nested_Trim (productId ?it) (quantity ?it) (Fin w) ?ppr
        (js_ceil (js_div (quantity ?it) ?ppr)) (length_item ?it)
        (js_mul (js_ceil (js_div (quantity ?it) ?ppr)) (length_item ?it))
        (js_concat (toFixed 1 (js_mul (js_div (js_mul (Fin w) ?ppr) (Fin cw)) (Fin 100))) ''%'')"
    by (simp only: p np assms(5))
  with q z show ?thesis by blast
qed

theorem C7_pieces_never_zero_witness:
  "optimize narrow_request = Inr (projr (optimize narrow_request))
   \<and> (''Black'', snd (hd (optimization (projr (optimize narrow_request)))))
        \<in> set (optimization (projr (optimize narrow_request)))
   \<and> 0 < length (items_g (snd (hd (optimization (projr (optimize narrow_request))))))
   \<and> coilWidth_of narrow_request = Fin 33
   \<and> width (items_g (snd (hd (optimization (projr (optimize narrow_request))))) ! 0) =
       Fin (2476979795053773 / 1125899906842624)
   \<and> (0::rat) < 2476979795053773 / 1125899906842624
   \<and> (2476979795053773 / 1125899906842624 :: rat) < 33
   \<and> (\<exists>product qty rowsNeeded len feet eff.
         patterns (snd (hd (optimization (projr (optimize narrow_request))))) ! 0 =
           Nested_Trim product qty (Fin (2476979795053773 / 1125899906842624)) (Fin 14)
             rowsNeeded len feet eff
         \<and> \<not> is_zero (Fin 14)
         \<and> rowsNeeded = js_ceil (js_div qty (Fin 14)))"
proof -
  let ?g = "snd (hd (optimization (projr (optimize narrow_request))))"
  have ok: "optimize narrow_request = Inr (projr (optimize narrow_request))"
    by (simp add: narrow_answer)
  have m: "(''Black'', ?g) \<in> set (optimization (projr (optimize narrow_request)))"
    by (simp add: narrow_answer)
  have l: "0 < length (items_g ?g)"
    by (simp add: narrow_answer narrow_group)
  have cw: "coilWidth_of narrow_request = Fin 33"
    by (simp add: narrow_request_def coilWidth_of_def)
  have wn: "width narrow_item = Fin (2476979795053773 / 1125899906842624)"
    by code_simp
  have w: "width (items_g ?g ! 0) = Fin (2476979795053773 / 1125899906842624)"
    by (simp add: narrow_answer narrow_group wn)
  have a: "(0::rat) < 2476979795053773 / 1125899906842624"
    "(2476979795053773 / 1125899906842624 :: rat) < 33"
    by simp_all
  have pv: "patterns ?g ! 0 =
      Nested_Trim ''TRIM'' (Fin 15) (Fin (2476979795053773 / 1125899906842624)) (Fin 14) (Fin 2)
        (Fin 10) (Fin 20) (Str ''93.3%'')"
    by (simp add: narrow_answer narrow_group)
  from C7_pieces_never_zero [OF ok m l cw w a]
  obtain product qty piecesPerRow rowsNeeded len feet eff where
    p: "patterns ?g ! 0 =
      Nested_Trim product qty (Fin (2476979795053773 / 1125899906842624)) piecesPerRow rowsNeeded
        len feet eff"
    and z: "\<not> is_zero piecesPerRow"
    and r: "rowsNeeded = js_ceil (js_div qty piecesPerRow)"
    by blast
  from p pv have "piecesPerRow = Fin 14" by simp
  with p z r have "patterns ?g ! 0 =
      Nested_Trim product qty (Fin (2476979795053773 / 1125899906842624)) (Fin 14) rowsNeeded
        len feet eff
      \<and> \<not> is_zero (Fin 14) \<and> rowsNeeded = js_ceil (js_div qty (Fin 14))"
    by simp
  with ok m l cw w a show ?thesis by blast
qed

text \<open>
  C9. For every colour name and width, \<^verbatim>\<open>selectCoilProduct\<close> returns the prefix of
  the width (\<^verbatim>\<open>CO20\<close> for the width 20, \<^verbatim>\<open>CO43875\<close> otherwise), then
  \<^verbatim>\<open>29\<close>, then a colour code: the key of the table entry whose name equals the
  input after both are put in lower case (the lower-cased names of the table are
  distinct, so there is at most one), or \<^verbatim>\<open>CUSTOM\<close> when no entry matches.
\<close>

theorem C9_coil_product:
  "(\<forall>code name. (code, name) \<in> set colors \<and> toLowerCase name = toLowerCase colorName \<longrightarrow>
      selectCoilProduct colorName w =
        (if js_strict_eq w (Fin 20) then ''CO20'' else ''CO43875'') @ ''29'' @ code)
   \<and> ((\<forall>e \<in> set colors. toLowerCase (snd e) \<noteq> toLowerCase colorName) \<longrightarrow>
      selectCoilProduct colorName w =
        (if js_strict_eq w (Fin 20) then ''CO20'' else ''CO43875'') @ ''29'' @ ''CUSTOM'')"
proof (intro conjI allI impI)
  fix code name
  assume "(code, name) \<in> set colors \<and> toLowerCase name = toLowerCase colorName"
  then have "getColorCode colorName = code"
    unfolding getColorCode_def
    using getColorCode_entries_match [OF colors_lower_distinct] by blast
  then show "selectCoilProduct colorName w =
        (if js_strict_eq w (Fin 20) then ''CO20'' else ''CO43875'') @ ''29'' @ code"
    by (simp add: selectCoilProduct_def Let_def)
next
  assume "\<forall>e \<in> set colors. toLowerCase (snd e) \<noteq> toLowerCase colorName"
  then have "getColorCode colorName = ''CUSTOM''"
    unfolding getColorCode_def by (rule getColorCode_entries_none)
  then show "selectCoilProduct colorName w =
        (if js_strict_eq w (Fin 20) then ''CO20'' else ''CO43875'') @ ''29'' @ ''CUSTOM''"
    by (simp add: selectCoilProduct_def Let_def)
qed

theorem C9_coil_product_witness:
  "(''AG'', ''Ash Gray'') \<in> set colors \<and> toLowerCase ''Ash Gray'' = toLowerCase ''ASH gray''
   \<and> selectCoilProduct ''ASH gray'' (Fin 20) = ''CO2029AG''
   \<and> selectCoilProduct ''Teal'' (Fin (351 / 8)) = ''CO4387529CUSTOM''"
proof -
  have a: "(''AG'', ''Ash Gray'') \<in> set colors \<and> toLowerCase ''Ash Gray'' = toLowerCase ''ASH gray''"
    by code_simp
  have b: "\<forall>e \<in> set colors. toLowerCase (snd e) \<noteq> toLowerCase ''Teal''"
    by code_simp
  have c: "js_strict_eq (Fin 20) (Fin 20)" "\<not> js_strict_eq (Fin (351 / 8)) (Fin 20)"
    by (simp_all add: js_strict_eq_def)
  from C9_coil_product [of "''ASH gray''" "Fin 20", THEN conjunct1, rule_format, OF a]
    C9_coil_product [of "''Teal''" "Fin (351 / 8)", THEN conjunct2, THEN mp, OF b]
  show ?thesis using a c by simp
qed

text \<open>
  C10, as stated, fails: the quotient of baseLinearFeet by totalLinearFeet is a
  binary64 number that depends on the lines. For one line of 3 by 1 feet it is
  0.9523809523809524; for one line of 45 by 16 feet it is 0.9523809523809523, which
  is also the binary64 value of 1 / (1 + 0.05). The first is neither that value nor
  the exact one. And a baseLinearFeet of Infinity is positive too (a quantity of
  \<^verbatim>\<open>1e999\<close> on the default coil gives it): there the quotient is NaN, printed as
  NaN%.
\<close>

theorem C10_efficiency_varies_counterexample:
  "\<not> isl (optimize three_request)
   \<and> map (baseLinearFeet \<circ> snd) (optimization (projr (optimize three_request))) = [Fin 3]
   \<and> map (totalLinearFeet \<circ> snd) (optimization (projr (optimize three_request))) =
       [Fin (7093169413108531 / 2251799813685248)]
   \<and> js_div (Fin 3) (Fin (7093169413108531 / 2251799813685248)) =
       Fin (8578285004515231 / 9007199254740992)
   \<and> \<not> isl (optimize scenario_A)
   \<and> map (baseLinearFeet \<circ> snd) (optimization (projr (optimize scenario_A))) = [Fin 720]
   \<and> map (totalLinearFeet \<circ> snd) (optimization (projr (optimize scenario_A))) = [Fin 756]
   \<and> js_div (Fin 720) (Fin 756) = Fin (4289142502257615 / 4503599627370496)
   \<and> js_div (Fin 1) (js_add (Fin 1) scrapFactor) = Fin (4289142502257615 / 4503599627370496)
   \<and> Fin (8578285004515231 / 9007199254740992) \<noteq> Fin (4289142502257615 / 4503599627370496)
   \<and> (8578285004515231 / 9007199254740992 :: rat) \<noteq> 1 / (1 + mag scrapFactor)
   \<and> (8578285004515231 / 9007199254740992 :: rat) \<noteq> 1 / (1 + 5 / 100)
   \<and> \<not> isl (optimize infinite_request)
   \<and> coilWidth_of infinite_request = Fin (351 / 8)
   \<and> map (baseLinearFeet \<circ> snd) (optimization (projr (optimize infinite_request))) = [PosInf]
   \<and> map (totalLinearFeet \<circ> snd) (optimization (projr (optimize infinite_request))) = [PosInf]
   \<and> js_div PosInf PosInf = NaN
   \<and> map (efficiency \<circ> snd) (optimization (projr (optimize infinite_request))) =
       [Str ''NaN%'']"
proof -
  have "js_div (Fin 3) (Fin (7093169413108531 / 2251799813685248)) =
       Fin (8578285004515231 / 9007199254740992)"
    "js_div (Fin 720) (Fin 756) = Fin (4289142502257615 / 4503599627370496)"
    "js_div (Fin 1) (js_add (Fin 1) scrapFactor) = Fin (4289142502257615 / 4503599627370496)"
    "js_div PosInf PosInf = NaN"
    by code_simp+
  moreover have "(8578285004515231 / 9007199254740992 :: rat) \<noteq> 1 / (1 + mag scrapFactor)"
    by (simp add: scrapFactor_value)
  moreover have "coilWidth_of infinite_request = Fin (351 / 8)"
    by (simp add: infinite_request_def coilWidth_of_def default_coilWidth)
  ultimately show ?thesis
    by (simp add: three_answer three_group scenario_A_answer scenario_A_group
          infinite_answer infinite_group)
qed

text \<open>
  C10, amended. For every colour group whose baseLinearFeet is a finite number from
  \<open>2^(-1000)\<close> to \<open>2^1000\<close>, the quotient of baseLinearFeet by totalLinearFeet is a
  finite number within \<open>2^(-50)\<close> of 1 / (1 + scrapFactor), whatever the lines are,
  and the efficiency the handler prints is 95.24%. The quotient itself varies with
  the lines in its last digits.
\<close>

theorem C10_material_efficiency:
  assumes "optimize req = Inr resp" and "(c, g) \<in> set (optimization resp)"
    and "baseLinearFeet g = Fin b" and "pow2 (- 1000) \<le> b" and "b \<le> pow2 1000"
  shows "\<exists>q. js_div (baseLinearFeet g) (totalLinearFeet g) = Fin q
           \<and> \<bar>q - 1 / (1 + mag scrapFactor)\<bar> \<le> pow2 (- 50)
           \<and> efficiency g = Str ''95.24%''"
proof -
  from assms(1,2) obtain its where g: "g = optimize_group (coilWidth_of req) c its"
    using optimize_group_mem by blast
  from efficiency_bounds [OF assms(4,5)] obtain s t q x where
    s: "js_mul (Fin b) scrapFactor = Fin s" and t: "js_add (Fin b) (Fin s) = Fin t"
    and q: "js_div (Fin b) (Fin t) = Fin q" and x: "js_mul (Fin q) (Fin 100) = Fin x"
    and qerr: "\<bar>q - 1 / (1 + mag scrapFactor)\<bar> \<le> pow2 (- 50)"
    and x1: "95235 / 1000 \<le> x" and x2: "x < 95245 / 1000"
    by blast
  have sf: "scrapFeet g = Fin s"
    using assms(3) s unfolding g by (simp only: group_fields(1))
  have tf: "totalLinearFeet g = Fin t"
    using assms(3) sf t unfolding g by (simp only: group_fields(2))
  have r: "js_div (baseLinearFeet g) (totalLinearFeet g) = Fin q"
    by (simp only: assms(3) tf q)
  have "efficiency g =
     js_concat (toFixed 2 (js_mul (js_div (baseLinearFeet g) (totalLinearFeet g)) (Fin 100))) ''%''"
    unfolding g by (rule group_fields(4))
  also have "\<dots> = js_concat (toFixed 2 (Fin x)) ''%''" by (simp only: r x)
  also have "\<dots> = Str ''95.24%''" by (simp only: toFixed_9524 [OF x1 x2] js_concat.simps) simp
  finally have "efficiency g = Str ''95.24%''" .
  with r qerr show ?thesis by blast
qed

theorem C10_material_efficiency_witness:
  "optimize three_request = Inr (projr (optimize three_request))
   \<and> (''Ash Gray'', snd (hd (optimization (projr (optimize three_request)))))
        \<in> set (optimization (projr (optimize three_request)))
   \<and> baseLinearFeet (snd (hd (optimization (projr (optimize three_request))))) = Fin 3
   \<and> pow2 (- 1000) \<le> 3 \<and> 3 \<le> pow2 1000
   \<and> js_div (baseLinearFeet (snd (hd (optimization (projr (optimize three_request))))))
        (totalLinearFeet (snd (hd (optimization (projr (optimize three_request)))))) =
       Fin (8578285004515231 / 9007199254740992)
   \<and> \<bar>8578285004515231 / 9007199254740992 - 1 / (1 + mag scrapFactor)\<bar> \<le> pow2 (- 50)
   \<and> efficiency (snd (hd (optimization (projr (optimize three_request))))) = Str ''95.24%''"
proof -
  let ?g = "snd (hd (optimization (projr (optimize three_request))))"
  have ok: "optimize three_request = Inr (projr (optimize three_request))"
    by (simp add: three_answer)
  have m: "(''Ash Gray'', ?g) \<in> set (optimization (projr (optimize three_request)))"
    by (simp add: three_answer)
  have b: "baseLinearFeet ?g = Fin 3"
    and t: "totalLinearFeet ?g = Fin (7093169413108531 / 2251799813685248)"
    by (simp_all add: three_answer three_group)
  have "pow2 (- 1000) \<le> pow2 0" by (rule pow2_mono) simp
  then have lo: "pow2 (- 1000) \<le> 3" by (simp add: pow2_0)
  have "pow2 2 \<le> pow2 1000" by (rule pow2_mono) simp
  moreover have "pow2 2 = 4" by (simp add: pow2_def)
  ultimately have hi: "3 \<le> pow2 1000" by linarith
  have d: "js_div (Fin 3) (Fin (7093169413108531 / 2251799813685248)) =
       Fin (8578285004515231 / 9007199254740992)"
    by code_simp
  from C10_material_efficiency [OF ok m b lo hi] obtain q where
    q: "js_div (baseLinearFeet ?g) (totalLinearFeet ?g) = Fin q"
    and e: "\<bar>q - 1 / (1 + mag scrapFactor)\<bar> \<le> pow2 (- 50)"
    and f: "efficiency ?g = Str ''95.24%''"
    by blast
  from q d have "q = 8578285004515231 / 9007199254740992" by (simp add: b t)
  with q e have "js_div (baseLinearFeet ?g) (totalLinearFeet ?g) =
       Fin (8578285004515231 / 9007199254740992)"
    and "\<bar>8578285004515231 / 9007199254740992 - 1 / (1 + mag scrapFactor)\<bar> \<le> pow2 (- 50)"
    by simp_all
  with ok m b lo hi f show ?thesis by blast
qed

end
